theory Spec2Isabelle
  imports Main "HOL-Library.Word"
begin

section \<open>Go standard-library functions used by \<open>cmd/client-s3.go\<close>\<close>

text \<open>
  Go strings are byte sequences; they are modelled as \<open>string\<close> (a list of 8-bit
  characters).  The path separator of a client URL is a single byte (\<open>/\<close> for every
  object-storage URL), so \<open>string(c.targetURL.Separator)\<close> is the one-element string
  \<open>[Separator]\<close>.
\<close>

definition strings_HasPrefix :: "string \<Rightarrow> string \<Rightarrow> bool" where
  "strings_HasPrefix s pre = (length pre \<le> length s \<and> take (length pre) s = pre)"

definition strings_HasSuffix :: "string \<Rightarrow> string \<Rightarrow> bool" where
  "strings_HasSuffix s suf = (length suf \<le> length s \<and> drop (length s - length suf) s = suf)"

text \<open>\<open>strings.Index\<close>: position of the first occurrence of \<open>sub\<close> in \<open>s\<close>, or \<open>-1\<close>.\<close>

fun strings_Index :: "string \<Rightarrow> string \<Rightarrow> int" where
  "strings_Index [] sub = (if sub = [] then 0 else -1)"
| "strings_Index (x # t) sub =
     (if strings_HasPrefix (x # t) sub then 0
      else (let r = strings_Index t sub in if r = -1 then -1 else r + 1))"

text \<open>
  \<open>strings.SplitN(s, sep, n)\<close> for a one-byte separator and \<open>n \<ge> 0\<close>: at most \<open>n\<close>
  substrings, the last one being the unsplit remainder.
\<close>

fun strings_SplitN :: "string \<Rightarrow> char \<Rightarrow> nat \<Rightarrow> string list" where
  "strings_SplitN s sep 0 = []"
| "strings_SplitN s sep (Suc 0) = [s]"
| "strings_SplitN s sep (Suc (Suc n)) =
     (if sep \<in> set s
      then takeWhile (\<lambda>c. c \<noteq> sep) s # strings_SplitN (tl (dropWhile (\<lambda>c. c \<noteq> sep) s)) sep (Suc n)
      else [s])"

text \<open>\<open>strings.TrimRight(s, cutset)\<close>: drop every trailing byte that occurs in \<open>cutset\<close>.\<close>

definition strings_TrimRight :: "string \<Rightarrow> string \<Rightarrow> string" where
  "strings_TrimRight s cutset = rev (dropWhile (\<lambda>c. c \<in> set cutset) (rev s))"

text \<open>\<open>strings.Join\<close> with a one-byte separator.\<close>

fun strings_Join :: "string list \<Rightarrow> char \<Rightarrow> string" where
  "strings_Join [] sep = []"
| "strings_Join [e] sep = e"
| "strings_Join (e # es) sep = e @ sep # strings_Join es sep"

subsection \<open>\<open>path/filepath\<close> (Unix)\<close>

text \<open>
  \<open>filepath.Clean\<close> walks the path elements between slashes: empty elements and \<open>.\<close>
  are dropped, \<open>..\<close> removes the element before it (or is dropped at the root, or kept
  at the front of a relative path).  \<open>cleanElems\<close> keeps the output elements in reverse.
\<close>

fun cleanElems :: "bool \<Rightarrow> string list \<Rightarrow> string list \<Rightarrow> string list" where
  "cleanElems rooted out [] = rev out"
| "cleanElems rooted out (e # es) =
     (if e = [] \<or> e = ''.'' then cleanElems rooted out es
      else if e = ''..'' then
        (case out of
           [] \<Rightarrow> if rooted then cleanElems rooted out es else cleanElems rooted [e] es
         | t # ts \<Rightarrow> if t = ''..'' then cleanElems rooted (e # out) es
                     else cleanElems rooted ts es)
      else cleanElems rooted (e # out) es)"

definition filepath_Clean :: "string \<Rightarrow> string" where
  "filepath_Clean p =
     (if p = [] then ''.''
      else (let rooted = (hd p = CHR ''/'');
                body = strings_Join (cleanElems rooted [] (strings_SplitN p (CHR ''/'') (Suc (length p)))) (CHR ''/'')
            in if rooted then CHR ''/'' # body
               else if body = [] then ''.'' else body))"

text \<open>\<open>filepath.Join\<close>: leading empty elements are ignored, the rest is joined and cleaned.\<close>

fun filepath_Join :: "string list \<Rightarrow> string" where
  "filepath_Join [] = []"
| "filepath_Join (e # es) =
     (if e = [] then filepath_Join es
      else filepath_Clean (strings_Join (e # es) (CHR ''/'')))"

text \<open>
  \<open>filepath.Match\<close> for patterns built from literal bytes and \<open>*\<close> (the only forms the
  source uses); \<open>*\<close> matches any run of bytes other than the separator \<open>/\<close>.
\<close>

datatype glob = Star | Lit char

function filepath_Match :: "glob list \<Rightarrow> string \<Rightarrow> bool" where
  "filepath_Match [] s = (s = [])"
| "filepath_Match (Lit c # p) [] = False"
| "filepath_Match (Lit c # p) (x # s) = (c = x \<and> filepath_Match p s)"
| "filepath_Match (Star # p) [] = filepath_Match p []"
| "filepath_Match (Star # p) (x # s) =
     (filepath_Match p (x # s) \<or> (x \<noteq> CHR ''/'' \<and> filepath_Match (Star # p) s))"
  by pat_completeness auto
termination
  by (relation "measure (\<lambda>(p, s). length p + length s)") auto

definition lits :: "string \<Rightarrow> glob list" where
  "lits s = map Lit s"

section \<open>Client URL and address resolution\<close>

record clientURL =
  Scheme :: string
  Host :: string
  Path :: string
  Separator :: char

text \<open>
  The \<open>s3Client\<close> of the source also holds a mutex and the handle of the SDK client; the
  SDK operations are passed to the functions below as an explicit \<open>api\<close> argument.
\<close>

record s3Client =
  targetURL :: clientURL
  virtualStyle :: bool

definition amazonHostName :: string where
  "amazonHostName = ''s3.amazonaws.com''"

definition googleHostName :: string where
  "googleHostName = ''storage.googleapis.com''"

definition isAmazon :: "string \<Rightarrow> bool" where
  "isAmazon host = filepath_Match (Star # lits ''.s3'' @ Star # lits ''.amazonaws.com'') host"

definition isGoogle :: "string \<Rightarrow> bool" where
  "isGoogle host = filepath_Match (Star # lits ''.storage.googleapis.com'') host"

definition isVirtualHostStyle :: "string \<Rightarrow> bool" where
  "isVirtualHostStyle host = (isAmazon host \<or> isGoogle host)"

text \<open>The index of the provider marker that \<open>url2BucketAndObject\<close> looks for in the host.\<close>

definition hostIndex :: "string \<Rightarrow> int" where
  "hostIndex host =
     (let i = strings_Index host ''s3''
      in if i = -1 then strings_Index host ''storage.googleapis'' else i)"

text \<open>The path that is split: rewritten to \<open>/<bucket><path>\<close> for a virtual-host URL.\<close>

definition effectivePath :: "s3Client \<Rightarrow> string" where
  "effectivePath c =
     (let u = targetURL c
      in if virtualStyle c \<and> hostIndex (Host u) > 0
         then Separator u # take (nat (hostIndex (Host u) - 1)) (Host u) @ Path u
         else Path u)"

definition splitBucketObject :: "string list \<Rightarrow> string \<times> string" where
  "splitBucketObject splits =
     (case splits of
        [] \<Rightarrow> ([], [])
      | [s0] \<Rightarrow> ([], [])
      | [s0, s1] \<Rightarrow> (s1, [])
      | [s0, s1, s2] \<Rightarrow> (s1, s2)
      | _ \<Rightarrow> ([], []))"

text \<open>The \<open>i\<close>-th field of a split, empty when the split has no such field.\<close>

definition field :: "string list \<Rightarrow> nat \<Rightarrow> string" where
  "field splits i = (if i < length splits then splits ! i else [])"

definition url2BucketAndObject :: "s3Client \<Rightarrow> string \<times> string" where
  "url2BucketAndObject c =
     splitBucketObject (strings_SplitN (effectivePath c) (Separator (targetURL c)) 3)"

section \<open>Errors, SDK data and the SDK operation interface\<close>

text \<open>
  \<open>*probe.Error\<close> values.  \<open>InvalidArgument\<close> is the value of \<open>errInvalidArgument()\<close>;
  \<open>ErrorString\<close> is an \<open>errors.New\<close> value; \<open>BackendError\<close> is an error returned by the
  SDK and wrapped unchanged by \<open>probe.NewError\<close>.
\<close>

datatype error =
    InvalidArgument
  | BucketNameEmpty
  | BucketDoesNotExist string
  | ObjectMissing
  | ObjectOnGlacier string
  | ErrorString string
  | BackendError string

type_synonym Time = int

type_synonym FileMode = "32 word"

definition ModeDir :: FileMode where
  "ModeDir = push_bit 31 1"

definition ModeTemporary :: FileMode where
  "ModeTemporary = push_bit 28 1"

definition Mode0664 :: FileMode where
  "Mode0664 = 436"

record BucketInfo =
  Name :: string
  CreationDate :: Time

record ObjectInfo =
  Key :: string
  Size :: "64 word"
  LastModified :: Time
  StorageClass :: string
  Err :: "string option"

record ObjectMultipartInfo =
  upload_Key :: string
  upload_Size :: "64 word"
  Initiated :: Time
  upload_Err :: "string option"

text \<open>
  The operations consumed from the SDK.  A Go channel of listing entries is the finite
  list of the entries sent on it; a pair \<open>(value, error)\<close> keeps both components, as
  Go does.
\<close>

datatype api_call =
    Call_RemoveIncompleteUpload string string
  | Call_RemoveBucket string
  | Call_RemoveObject string string
  | Call_ListenBucketNotification string string string "string list"

record api =
  ListBuckets :: "BucketInfo list \<times> string option"
  ListObjects :: "string \<Rightarrow> string \<Rightarrow> bool \<Rightarrow> ObjectInfo list"
  ListObjectsV2 :: "string \<Rightarrow> string \<Rightarrow> bool \<Rightarrow> ObjectInfo list"
  ListIncompleteUploads :: "string \<Rightarrow> string \<Rightarrow> bool \<Rightarrow> ObjectMultipartInfo list"
  BucketExists :: "string \<Rightarrow> bool \<times> string option"
  Respond :: "api_call \<Rightarrow> string option"

record clientContent =
  content_URL :: clientURL
  content_Time :: Time
  content_Size :: "64 word"
  content_Type :: FileMode
  content_Err :: "error option"

text \<open>The zero values of the Go structs.\<close>

definition zeroURL :: clientURL where
  "zeroURL = \<lparr>Scheme = [], Host = [], Path = [], Separator = CHR 0x00\<rparr>"

definition zeroContent :: clientContent where
  "zeroContent =
     \<lparr>content_URL = zeroURL, content_Time = 0, content_Size = 0, content_Type = 0,
      content_Err = None\<rparr>"

definition errContent :: "error \<Rightarrow> clientContent" where
  "errContent e = zeroContent\<lparr>content_Err := Some e\<rparr>"

section \<open>Bucket names\<close>

text \<open>
  The regular expression \<open>^[a-z0-9][a-z0-9\.\-]{1,61}[a-z0-9]$\<close> is a sequence of
  bounded repetitions of byte classes, anchored at both ends.  \<open>matchItems\<close> is the
  matcher for such sequences: each item is a class with a least and a greatest number
  of repetitions.
\<close>

type_synonym regexItem = "string \<times> nat \<times> nat"

fun matchItems :: "regexItem list \<Rightarrow> string \<Rightarrow> bool" where
  "matchItems [] s = (s = [])"
| "matchItems (it # rest) s =
     list_ex (\<lambda>k. list_all (\<lambda>c. c \<in> set (fst it)) (take k s) \<and> matchItems rest (drop k s))
       [fst (snd it) ..< Suc (min (snd (snd it)) (length s))]"

definition lowerAlnum :: string where
  "lowerAlnum = ''abcdefghijklmnopqrstuvwxyz0123456789''"

definition validBucketName :: "regexItem list" where
  "validBucketName =
     [(lowerAlnum, 1, 1), (lowerAlnum @ ''.-'', 1, 61), (lowerAlnum, 1, 1)]"

text \<open>
  \<open>strings.TrimSpace(s) == ""\<close>: every code point of \<open>s\<close> is Unicode white space.  The
  white-space code points are the ASCII ones and U+0085, U+00A0, U+1680, U+2000..U+200A,
  U+2028, U+2029, U+202F, U+205F, U+3000, read here in their UTF-8 encoding.
\<close>

fun allSpace :: "string \<Rightarrow> bool" where
  "allSpace [] = True"
| "allSpace (a # s) =
     (if a \<in> set [CHR 0x09, CHR 0x0A, CHR 0x0B, CHR 0x0C, CHR 0x0D, CHR '' ''] then allSpace s
      else (case s of
          [] \<Rightarrow> False
        | b # s' \<Rightarrow>
            if a = CHR 0xC2 \<and> (b = CHR 0x85 \<or> b = CHR 0xA0) then allSpace s'
            else (case s' of
                [] \<Rightarrow> False
              | d # s'' \<Rightarrow>
                  if (a = CHR 0xE1 \<and> b = CHR 0x9A \<and> d = CHR 0x80)
                   \<or> (a = CHR 0xE2 \<and> b = CHR 0x80 \<and>
                        ((128 \<le> (of_char d :: nat) \<and> (of_char d :: nat) \<le> 138)
                         \<or> d = CHR 0xA8 \<or> d = CHR 0xA9 \<or> d = CHR 0xAF))
                   \<or> (a = CHR 0xE2 \<and> b = CHR 0x81 \<and> d = CHR 0x9F)
                   \<or> (a = CHR 0xE3 \<and> b = CHR 0x80 \<and> d = CHR 0x80)
                  then allSpace s'' else False)))"

definition isValidBucketName :: "string \<Rightarrow> error option" where
  "isValidBucketName bucketName =
     (if allSpace bucketName then Some (ErrorString ''Bucket name cannot be empty.'')
      else if length bucketName < 3 \<or> length bucketName > 63
        then Some (ErrorString ''Bucket name should be more than 3 characters and less than 64 characters'')
      else if \<not> matchItems validBucketName bucketName
        then Some (ErrorString ''Bucket name can contain alphabet, '-' and numbers, but first character should be an alphabet or number'')
      else None)"

section \<open>Remove and Watch\<close>

text \<open>
  A function that calls a side-effecting SDK operation returns the calls it made, in
  order, next to its result; the SDK's answer to a call is \<open>Respond api call\<close>.
  \<open>probe.NewError\<close> maps a nil error to nil.
\<close>

definition Remove :: "s3Client \<Rightarrow> api \<Rightarrow> bool \<Rightarrow> error option \<times> api_call list" where
  "Remove c a incomplete =
     (let (bucket, object) = url2BucketAndObject c
      in if incomplete \<and> object \<noteq> []
         then (map_option BackendError (Respond a (Call_RemoveIncompleteUpload bucket object)),
               [Call_RemoveIncompleteUpload bucket object])
         else if object = []
         then (map_option BackendError (Respond a (Call_RemoveBucket bucket)),
               [Call_RemoveBucket bucket])
         else (map_option BackendError (Respond a (Call_RemoveObject bucket object)),
               [Call_RemoveObject bucket object]))"

record watchParams =
  events :: "string list"
  prefix :: string
  suffix :: string

definition ObjectCreatedAll :: string where
  "ObjectCreatedAll = ''s3:ObjectCreated:*''"

definition ObjectRemovedAll :: string where
  "ObjectRemovedAll = ''s3:ObjectRemoved:*''"

text \<open>The loop of \<open>Watch\<close> over \<open>params.events\<close>; \<open>acc\<close> is the slice built so far.\<close>

fun watchEvents :: "string list \<Rightarrow> string list \<Rightarrow> error + string list" where
  "watchEvents acc [] = Inr acc"
| "watchEvents acc (event # rest) =
     (if event = ''put'' then watchEvents (acc @ [ObjectCreatedAll]) rest
      else if event = ''delete'' then watchEvents (acc @ [ObjectRemovedAll]) rest
      else Inl InvalidArgument)"

text \<open>
  \<open>Watch\<close> up to the opening of the subscription.  On success the result is the parameter
  record as updated by the function (the promoted prefix); the forwarding of the
  notifications to the event and error channels is not part of this model.
\<close>

definition Watch :: "s3Client \<Rightarrow> watchParams \<Rightarrow> (error + watchParams) \<times> api_call list" where
  "Watch c params =
     (let (bucket, object) = url2BucketAndObject c
      in case isValidBucketName bucket of
           Some err \<Rightarrow> (Inl err, [])
         | None \<Rightarrow>
            (case watchEvents [] (events params) of
               Inl err \<Rightarrow> (Inl err, [])
             | Inr evs \<Rightarrow>
                 if object \<noteq> [] \<and> prefix params \<noteq> [] then (Inl InvalidArgument, [])
                 else (let params' = (if object \<noteq> [] \<and> prefix params = []
                                      then params\<lparr>prefix := object\<rparr> else params)
                       in (Inr params',
                           [Call_ListenBucketNotification bucket (prefix params') (suffix params') evs]))))"

section \<open>Stat\<close>

definition listObjectWrapper ::
  "s3Client \<Rightarrow> api \<Rightarrow> string \<Rightarrow> string \<Rightarrow> bool \<Rightarrow> ObjectInfo list" where
  "listObjectWrapper c a bucket object isRecursive =
     (if Host (targetURL c) = amazonHostName
      then ListObjectsV2 a bucket object isRecursive
      else ListObjects a bucket object isRecursive)"

text \<open>The loop of \<open>Stat\<close> over the listing; \<open>object\<close> is the trimmed key.\<close>

fun statLoop :: "s3Client \<Rightarrow> string \<Rightarrow> ObjectInfo list \<Rightarrow> error + clientContent" where
  "statLoop c object [] = Inl ObjectMissing"
| "statLoop c object (objectStat # rest) =
     (case Err objectStat of
        Some e \<Rightarrow> Inl (BackendError e)
      | None \<Rightarrow>
          if Key objectStat = object
          then Inr (zeroContent\<lparr>content_URL := targetURL c,
                                content_Time := LastModified objectStat,
                                content_Size := Size objectStat,
                                content_Type := Mode0664\<rparr>)
          else if strings_HasSuffix (Key objectStat) [Separator (targetURL c)]
          then Inr (zeroContent\<lparr>content_URL := targetURL c, content_Type := ModeDir\<rparr>)
          else statLoop c object rest)"

definition Stat :: "s3Client \<Rightarrow> api \<Rightarrow> error + clientContent" where
  "Stat c a =
     (let (bucket, object) = url2BucketAndObject c
      in if bucket = [] then Inl BucketNameEmpty
         else if object = [] then
           (case BucketExists a bucket of
              (exists, Some e) \<Rightarrow> Inl (BackendError e)
            | (exists, None) \<Rightarrow>
                if \<not> exists then Inl (BucketDoesNotExist bucket)
                else Inr (zeroContent\<lparr>content_URL := targetURL c, content_Type := ModeDir\<rparr>))
         else (let object' = strings_TrimRight object [Separator (targetURL c)]
               in statLoop c object' (listObjectWrapper c a bucket object' False)))"

section \<open>Listing\<close>

text \<open>
  A listing goroutine sends its items on \<open>contentCh\<close> and closes the channel when it
  returns; it is modelled by the list of the items sent.  \<open>time.Now()\<close> reads the wall
  clock: \<open>now k\<close> is the reading taken while the item at position \<open>k\<close> of the output
  is built.  Loops that can \<open>return\<close> from the goroutine yield a flag next to their items
  (\<open>True\<close>: the goroutine has returned).
\<close>

definition withPath :: "clientURL \<Rightarrow> string \<Rightarrow> clientURL" where
  "withPath u p = u\<lparr>Path := p\<rparr>"

text \<open>
  The URL of an item below bucket \<open>b\<close>: \<open>/b/key\<close> joined by \<open>filepath.Join\<close>, and
  \<open>/key\<close> when the client is virtual-host style.
\<close>

definition itemURL :: "s3Client \<Rightarrow> string \<Rightarrow> string \<Rightarrow> clientURL" where
  "itemURL c b key =
     (let url = targetURL c
      in if virtualStyle c then withPath url (filepath_Join [[Separator url], key])
         else withPath url (filepath_Join [[Separator url], b, key]))"

subsection \<open>Incomplete uploads\<close>

fun listIncompleteLoop ::
  "s3Client \<Rightarrow> (nat \<Rightarrow> Time) \<Rightarrow> string \<Rightarrow> nat \<Rightarrow> ObjectMultipartInfo list
     \<Rightarrow> clientContent list \<times> bool" where
  "listIncompleteLoop c now b k [] = ([], False)"
| "listIncompleteLoop c now b k (object # rest) =
     (case upload_Err object of
        Some e \<Rightarrow> ([errContent (BackendError e)], True)
      | None \<Rightarrow>
          (let content =
                 (if strings_HasSuffix (upload_Key object) [Separator (targetURL c)]
                  then zeroContent\<lparr>content_URL := itemURL c b (upload_Key object),
                                    content_Time := now k,
                                    content_Type := ModeDir\<rparr>
                  else zeroContent\<lparr>content_URL := itemURL c b (upload_Key object),
                                    content_Size := upload_Size object,
                                    content_Time := Initiated object,
                                    content_Type := ModeTemporary\<rparr>);
               (items, returned) = listIncompleteLoop c now b (Suc k) rest
           in (content # items, returned)))"

fun listIncompleteBuckets ::
  "s3Client \<Rightarrow> api \<Rightarrow> (nat \<Rightarrow> Time) \<Rightarrow> string \<Rightarrow> nat \<Rightarrow> BucketInfo list \<Rightarrow> clientContent list" where
  "listIncompleteBuckets c a now ob k [] = []"
| "listIncompleteBuckets c a now ob k (bucket # rest) =
     (let (items, returned) =
            listIncompleteLoop c now (Name bucket) k (ListIncompleteUploads a (Name bucket) ob False)
      in if returned then items
         else items @ listIncompleteBuckets c a now ob (k + length items) rest)"

definition listIncompleteInRoutine :: "s3Client \<Rightarrow> api \<Rightarrow> (nat \<Rightarrow> Time) \<Rightarrow> clientContent list" where
  "listIncompleteInRoutine c a now =
     (let (b, ob) = url2BucketAndObject c
      in if b = [] \<and> ob = [] then
           (case ListBuckets a of
              (buckets, Some err) \<Rightarrow> [errContent (BackendError err)]
            | (buckets, None) \<Rightarrow> listIncompleteBuckets c a now ob 0 buckets)
         else fst (listIncompleteLoop c now b 0 (ListIncompleteUploads a b ob False)))"

fun listIncompleteRecursiveLoop ::
  "(string \<Rightarrow> clientURL) \<Rightarrow> ObjectMultipartInfo list \<Rightarrow> clientContent list \<times> bool" where
  "listIncompleteRecursiveLoop mkURL [] = ([], False)"
| "listIncompleteRecursiveLoop mkURL (object # rest) =
     (case upload_Err object of
        Some e \<Rightarrow> ([errContent (BackendError e)], True)
      | None \<Rightarrow>
          (let content = zeroContent\<lparr>content_URL := mkURL (upload_Key object),
                                     content_Size := upload_Size object,
                                     content_Time := Initiated object,
                                     content_Type := ModeTemporary\<rparr>;
               (items, returned) = listIncompleteRecursiveLoop mkURL rest
           in (content # items, returned)))"

fun listIncompleteRecursiveBuckets ::
  "s3Client \<Rightarrow> api \<Rightarrow> string \<Rightarrow> BucketInfo list \<Rightarrow> clientContent list" where
  "listIncompleteRecursiveBuckets c a ob [] = []"
| "listIncompleteRecursiveBuckets c a ob (bucket # rest) =
     (let (items, returned) =
            listIncompleteRecursiveLoop
              (\<lambda>key. withPath (targetURL c)
                        (filepath_Join [Path (targetURL c), Name bucket, key]))
              (ListIncompleteUploads a (Name bucket) ob True)
      in if returned then items
         else items @ listIncompleteRecursiveBuckets c a ob rest)"

definition listIncompleteRecursiveInRoutine :: "s3Client \<Rightarrow> api \<Rightarrow> clientContent list" where
  "listIncompleteRecursiveInRoutine c a =
     (let (b, ob) = url2BucketAndObject c
      in if b = [] \<and> ob = [] then
           (case ListBuckets a of
              (buckets, Some err) \<Rightarrow> [errContent (BackendError err)]
            | (buckets, None) \<Rightarrow> listIncompleteRecursiveBuckets c a ob buckets)
         else fst (listIncompleteRecursiveLoop (itemURL c b) (ListIncompleteUploads a b ob True)))"

subsection \<open>Flat listing\<close>

definition bucketContent :: "clientURL \<Rightarrow> BucketInfo \<Rightarrow> clientContent" where
  "bucketContent url bucket =
     zeroContent\<lparr>content_URL := url, content_Size := 0,
                 content_Time := CreationDate bucket, content_Type := ModeDir\<rparr>"

text \<open>The loop of the bucket-only case: the first bucket with the requested name.\<close>

fun listMatchingBucket :: "s3Client \<Rightarrow> string \<Rightarrow> BucketInfo list \<Rightarrow> clientContent list" where
  "listMatchingBucket c b [] = []"
| "listMatchingBucket c b (bucket # rest) =
     (if Name bucket = b then [bucketContent (targetURL c) bucket]
      else listMatchingBucket c b rest)"

text \<open>The loop of the default case over the entries of the listing.\<close>

fun listLoop ::
  "s3Client \<Rightarrow> (nat \<Rightarrow> Time) \<Rightarrow> string \<Rightarrow> nat \<Rightarrow> ObjectInfo list \<Rightarrow> clientContent list" where
  "listLoop c now b k [] = []"
| "listLoop c now b k (object # rest) =
     (case Err object of
        Some e \<Rightarrow> [errContent (BackendError e)]
      | None \<Rightarrow>
          (if strings_HasSuffix (Key object) [Separator (targetURL c)]
           then zeroContent\<lparr>content_URL := itemURL c b (Key object),
                             content_Time := now k,
                             content_Type := ModeDir\<rparr>
           else zeroContent\<lparr>content_URL := itemURL c b (Key object),
                             content_Size := Size object,
                             content_Time := LastModified object,
                             content_Type := Mode0664\<rparr>)
          # listLoop c now b (Suc k) rest)"

definition listInRoutine :: "s3Client \<Rightarrow> api \<Rightarrow> (nat \<Rightarrow> Time) \<Rightarrow> clientContent list" where
  "listInRoutine c a now =
     (let (b, ob) = url2BucketAndObject c
      in if b = [] \<and> ob = [] then
           (case ListBuckets a of
              (buckets, Some e) \<Rightarrow> [errContent (BackendError e)]
            | (buckets, None) \<Rightarrow>
                map (\<lambda>bucket. bucketContent
                       (withPath (targetURL c) (filepath_Join [Path (targetURL c), Name bucket]))
                       bucket) buckets)
         else if b \<noteq> [] \<and> \<not> strings_HasSuffix (Path (targetURL c)) [Separator (targetURL c)] \<and> ob = []
         then
           (case ListBuckets a of
              (buckets, e) \<Rightarrow>
                (case e of None \<Rightarrow> [] | Some e' \<Rightarrow> [errContent (BackendError e')])
                @ listMatchingBucket c b buckets)
         else listLoop c now b 0 (listObjectWrapper c a b ob False))"

subsection \<open>Recursive listing\<close>

definition s3StorageClassGlacier :: string where
  "s3StorageClassGlacier = ''GLACIER''"

text \<open>The inner loop of the root case: the objects of one bucket.\<close>

fun listRecursiveBucketLoop :: "s3Client \<Rightarrow> string \<Rightarrow> ObjectInfo list \<Rightarrow> clientContent list" where
  "listRecursiveBucketLoop c bucketName [] = []"
| "listRecursiveBucketLoop c bucketName (object # rest) =
     (if StorageClass object = s3StorageClassGlacier
      then errContent (ObjectOnGlacier (Key object)) # listRecursiveBucketLoop c bucketName rest
      else (case Err object of
          Some e \<Rightarrow> errContent (BackendError e) # listRecursiveBucketLoop c bucketName rest
        | None \<Rightarrow>
            zeroContent\<lparr>content_URL :=
                          withPath (targetURL c)
                            (filepath_Join [Path (targetURL c), bucketName, Key object]),
                        content_Size := Size object,
                        content_Time := LastModified object,
                        content_Type := Mode0664\<rparr>
            # listRecursiveBucketLoop c bucketName rest))"

fun listRecursiveBuckets :: "s3Client \<Rightarrow> api \<Rightarrow> string \<Rightarrow> BucketInfo list \<Rightarrow> clientContent list" where
  "listRecursiveBuckets c a ob [] = []"
| "listRecursiveBuckets c a ob (bucket # rest) =
     zeroContent\<lparr>content_URL :=
                   withPath (targetURL c) (filepath_Join [Path (targetURL c), Name bucket]),
                 content_Type := ModeDir,
                 content_Time := CreationDate bucket\<rparr>
     # listRecursiveBucketLoop c (Name bucket) (listObjectWrapper c a (Name bucket) ob True)
     @ listRecursiveBuckets c a ob rest"

text \<open>The loop of the default case.\<close>

fun listRecursiveLoop :: "s3Client \<Rightarrow> string \<Rightarrow> ObjectInfo list \<Rightarrow> clientContent list" where
  "listRecursiveLoop c b [] = []"
| "listRecursiveLoop c b (object # rest) =
     (case Err object of
        Some e \<Rightarrow> errContent (BackendError e) # listRecursiveLoop c b rest
      | None \<Rightarrow>
          if Size object = 0 \<and> strings_HasSuffix (Key object) ''/''
          then listRecursiveLoop c b rest
          else zeroContent\<lparr>content_URL := itemURL c b (Key object),
                            content_Size := Size object,
                            content_Time := LastModified object,
                            content_Type := Mode0664\<rparr>
               # listRecursiveLoop c b rest)"

definition listRecursiveInRoutine :: "s3Client \<Rightarrow> api \<Rightarrow> clientContent list" where
  "listRecursiveInRoutine c a =
     (let (b, ob) = url2BucketAndObject c
      in if b = [] \<and> ob = [] then
           (case ListBuckets a of
              (buckets, Some err) \<Rightarrow> [errContent (BackendError err)]
            | (buckets, None) \<Rightarrow> listRecursiveBuckets c a ob buckets)
         else listRecursiveLoop c b (listObjectWrapper c a b ob True))"

definition List_contents ::
  "s3Client \<Rightarrow> api \<Rightarrow> (nat \<Rightarrow> Time) \<Rightarrow> bool \<Rightarrow> bool \<Rightarrow> clientContent list" where
  "List_contents c a now recursive incomplete =
     (if incomplete then
        (if recursive then listIncompleteRecursiveInRoutine c a
         else listIncompleteInRoutine c a now)
      else
        (if recursive then listRecursiveInRoutine c a
         else listInRoutine c a now))"

subsection \<open>The cases of the listing routines\<close>

text \<open>
  The conditions of the \<open>switch\<close> in the listing routines: the root case (no bucket and
  no object), the bucket-only case of the flat listing, and the default case, in which
  the objects below a bucket or prefix are enumerated.
\<close>

definition rootCase :: "s3Client \<Rightarrow> bool" where
  "rootCase c = (fst (url2BucketAndObject c) = [] \<and> snd (url2BucketAndObject c) = [])"

definition bucketOnlyCase :: "s3Client \<Rightarrow> bool" where
  "bucketOnlyCase c =
     (fst (url2BucketAndObject c) \<noteq> []
      \<and> \<not> strings_HasSuffix (Path (targetURL c)) [Separator (targetURL c)]
      \<and> snd (url2BucketAndObject c) = [])"

section \<open>Clients and backends used in the examples\<close>

text \<open>
  The factory \<open>newFactory\<close> stores the parsed target URL and sets \<open>virtualStyle\<close> from
  the host name.
\<close>

definition newClient :: "clientURL \<Rightarrow> s3Client" where
  "newClient u = \<lparr>targetURL = u, virtualStyle = isVirtualHostStyle (Host u)\<rparr>"

definition exampleURL :: "string \<Rightarrow> string \<Rightarrow> clientURL" where
  "exampleURL h p = \<lparr>Scheme = ''https'', Host = h, Path = p, Separator = CHR ''/''\<rparr>"

definition minioClient :: "string \<Rightarrow> s3Client" where
  "minioClient p = newClient (exampleURL ''play.minio.io:9000'' p)"

definition exampleObject :: "string \<Rightarrow> 64 word \<Rightarrow> ObjectInfo" where
  "exampleObject k n =
     \<lparr>Key = k, Size = n, LastModified = 1000, StorageClass = ''STANDARD'', Err = None\<rparr>"

definition failedObject :: "string \<Rightarrow> ObjectInfo" where
  "failedObject e =
     \<lparr>Key = [], Size = 0, LastModified = 0, StorageClass = [], Err = Some e\<rparr>"

definition glacierObject :: "string \<Rightarrow> 64 word \<Rightarrow> ObjectInfo" where
  "glacierObject k n = (exampleObject k n)\<lparr>StorageClass := ''GLACIER''\<rparr>"

definition exampleBucket :: "string \<Rightarrow> BucketInfo" where
  "exampleBucket n = \<lparr>Name = n, CreationDate = 500\<rparr>"

text \<open>
  A backend that answers every listing of objects with \<open>objs\<close>, \<open>ListBuckets\<close> with
  \<open>lb\<close> and the existence check with \<open>ex\<close>; it has no incomplete uploads and every
  removal succeeds.
\<close>

definition exampleApi ::
  "BucketInfo list \<times> string option \<Rightarrow> ObjectInfo list \<Rightarrow> bool \<times> string option \<Rightarrow> api" where
  "exampleApi lb objs ex =
     \<lparr>ListBuckets = lb,
      ListObjects = (\<lambda>bucket object isRecursive. objs),
      ListObjectsV2 = (\<lambda>bucket object isRecursive. objs),
      ListIncompleteUploads = (\<lambda>bucket object isRecursive. []),
      BucketExists = (\<lambda>bucket. ex),
      Respond = (\<lambda>call. None)\<rparr>"

definition exampleClock :: "nat \<Rightarrow> Time" where
  "exampleClock k = 2000 + int k"

section \<open>Bucket-name validation\<close>

lemma list_ex_range:
  "list_ex P [lo ..< Suc (min hi n)] \<longleftrightarrow> (\<exists>k. lo \<le> k \<and> k \<le> hi \<and> k \<le> n \<and> P k)"
proof -
  have "list_ex P [lo ..< Suc (min hi n)] \<longleftrightarrow> (\<exists>k. lo \<le> k \<and> k < Suc (min hi n) \<and> P k)"
    by (auto simp only: list_ex_iff set_upt atLeastLessThan_iff)
  also have "\<dots> \<longleftrightarrow> (\<exists>k. lo \<le> k \<and> k \<le> hi \<and> k \<le> n \<and> P k)"
    by (simp add: less_Suc_eq_le)
  finally show ?thesis .
qed

lemma matchItems_Cons:
  "matchItems ((cls, lo, hi) # rest) s \<longleftrightarrow>
     (\<exists>k. lo \<le> k \<and> k \<le> hi \<and> k \<le> length s \<and> set (take k s) \<subseteq> set cls \<and> matchItems rest (drop k s))"
  by (simp only: matchItems.simps list_ex_range fst_conv snd_conv list_all_iff subset_eq)

lemma matchItems_one:
  "matchItems ((cls, 1, 1) # rest) s \<longleftrightarrow> (\<exists>a t. s = a # t \<and> a \<in> set cls \<and> matchItems rest t)"
proof -
  have "matchItems ((cls, 1, 1) # rest) s \<longleftrightarrow>
        (1 \<le> length s \<and> set (take 1 s) \<subseteq> set cls \<and> matchItems rest (drop 1 s))"
    unfolding matchItems_Cons by (metis le_antisym order_refl)
  also have "\<dots> \<longleftrightarrow> (\<exists>a t. s = a # t \<and> a \<in> set cls \<and> matchItems rest t)"
    by (cases s) auto
  finally show ?thesis .
qed


lemma match_valid:
  "matchItems validBucketName s \<longleftrightarrow>
     (\<exists>a mid z. s = a # mid @ [z] \<and> a \<in> set lowerAlnum \<and> z \<in> set lowerAlnum \<and>
        1 \<le> length mid \<and> length mid \<le> 61 \<and> set mid \<subseteq> set (lowerAlnum @ ''.-''))"
  (is "?L \<longleftrightarrow> ?R")
proof
  assume ?L
  then obtain a t where s: "s = a # t" and a: "a \<in> set lowerAlnum"
    and t: "matchItems [(lowerAlnum @ ''.-'', 1, 61), (lowerAlnum, 1, 1)] t"
    unfolding validBucketName_def matchItems_one by blast
  from t obtain k where k: "1 \<le> k" "k \<le> 61" "k \<le> length t"
    and mid: "set (take k t) \<subseteq> set (lowerAlnum @ ''.-'')"
    and r: "matchItems [(lowerAlnum, 1, 1)] (drop k t)"
    unfolding matchItems_Cons by blast
  from r obtain z where z: "drop k t = [z]" "z \<in> set lowerAlnum"
    unfolding matchItems_one by auto
  have "t = take k t @ [z]" using z(1) by (metis append_take_drop_id)
  with s a k mid z show ?R
    by (intro exI[of _ a] exI[of _ "take k t"] exI[of _ z]) auto
next
  assume ?R
  then obtain a mid z where s: "s = a # mid @ [z]" and a: "a \<in> set lowerAlnum"
    and z: "z \<in> set lowerAlnum" and m: "1 \<le> length mid" "length mid \<le> 61"
    and ms: "set mid \<subseteq> set (lowerAlnum @ ''.-'')" by blast
  have "matchItems [(lowerAlnum, 1, 1)] [z]"
    unfolding matchItems_one using z by simp
  then have "matchItems [(lowerAlnum @ ''.-'', 1, 61), (lowerAlnum, 1, 1)] (mid @ [z])"
    unfolding matchItems_Cons[of "lowerAlnum @ ''.-''"] using m ms
    by (intro exI[of _ "length mid"]) simp
  then show ?L
    unfolding validBucketName_def matchItems_one[of lowerAlnum] using s a by blast
qed


lemma lowerAlnum_ascii:
  "a \<in> set lowerAlnum \<Longrightarrow>
     a \<notin> set [CHR 0x09, CHR 0x0A, CHR 0x0B, CHR 0x0C, CHR 0x0D, CHR '' ''] \<and>
     a \<noteq> CHR 0xC2 \<and> a \<noteq> CHR 0xE1 \<and> a \<noteq> CHR 0xE2 \<and> a \<noteq> CHR 0xE3"
  by (auto simp: lowerAlnum_def)


lemma lowerAlnum_not_space:
  assumes "a \<in> set lowerAlnum"
  shows "\<not> allSpace (a # t)"
  using lowerAlnum_ascii[OF assms] by (simp split: list.splits)


lemma isValidBucketName_None:
  "isValidBucketName s = None \<longleftrightarrow>
     (\<not> allSpace s \<and> 3 \<le> length s \<and> length s \<le> 63 \<and> matchItems validBucketName s)"
  unfolding isValidBucketName_def by (simp add: not_less)

text \<open>
  Claim C9.  \<open>isValidBucketName\<close> accepts a name (returns no error) exactly when the name
  is 3 to 63 bytes long, every byte is a lowercase letter, a digit, \<open>.\<close> or \<open>-\<close>, and
  its first and last bytes are lowercase letters or digits; every other name is
  rejected with an error.
\<close>

theorem isValidBucketName_accepts:
  "isValidBucketName s = None \<longleftrightarrow>
     (3 \<le> length s \<and> length s \<le> 63 \<and> (\<forall>c \<in> set s. c \<in> set (lowerAlnum @ ''.-''))
      \<and> hd s \<in> set lowerAlnum \<and> last s \<in> set lowerAlnum)"
  (is "?L \<longleftrightarrow> ?R")
proof
  assume ?L
  then have len: "3 \<le> length s" "length s \<le> 63"
    and m: "matchItems validBucketName s"
    unfolding isValidBucketName_None by blast+
  from m obtain a mid z where s: "s = a # mid @ [z]" and a: "a \<in> set lowerAlnum"
     and z: "z \<in> set lowerAlnum" and mid: "set mid \<subseteq> set (lowerAlnum @ ''.-'')"
    unfolding match_valid by blast
  have "hd s = a" "last s = z" using s by simp_all
  moreover have "\<forall>c \<in> set s. c \<in> set (lowerAlnum @ ''.-'')" using s a z mid by auto
  ultimately show ?R using len a z by simp
next
  assume R: ?R
  then have len: "3 \<le> length s" "length s \<le> 63" and all: "\<forall>c \<in> set s. c \<in> set (lowerAlnum @ ''.-'')"
    and h: "hd s \<in> set lowerAlnum" and l: "last s \<in> set lowerAlnum" by blast+
  from len obtain a t where s: "s = a # t" by (cases s) simp_all
  with len have tne: "t \<noteq> []" by auto
  then have t: "t = butlast t @ [last t]" by simp
  have la: "last s = last t" using s tne by simp
  have 1: "s = a # butlast t @ [last t]" using s t by simp
  have 2: "a \<in> set lowerAlnum" using h s by simp
  have 3: "last t \<in> set lowerAlnum" using l la by simp
  have 4: "1 \<le> length (butlast t)" "length (butlast t) \<le> 61" using len s by simp_all
  have "set (butlast t) \<subseteq> set s" using s by (auto dest: in_set_butlastD)
  with all have 5: "set (butlast t) \<subseteq> set (lowerAlnum @ ''.-'')" by blast
  from 1 2 3 4 5 have m: "matchItems validBucketName s"
    unfolding match_valid by blast
  have "\<not> allSpace s" using lowerAlnum_not_space 2 s by blast
  with m len show ?L unfolding isValidBucketName_None by blast
qed

theorem isValidBucketName_accepts_witness:
  "isValidBucketName ''my-bucket.1'' = None \<and> isValidBucketName ''-ab'' \<noteq> None"
  using isValidBucketName_accepts[of "''my-bucket.1''"] isValidBucketName_accepts[of "''-ab''"]
  by (simp add: lowerAlnum_def)

section \<open>Remove\<close>

lemma url_bkt: "url2BucketAndObject (minioClient ''/bkt'') = (''bkt'', [])"
  by code_simp

lemma url_bkt_k: "url2BucketAndObject (minioClient ''/bkt/k'') = (''bkt'', ''k'')"
  by code_simp

text \<open>
  Claim C10.  When the object key is empty, \<open>Remove\<close> with \<open>incomplete = true\<close> does
  what it does with \<open>incomplete = false\<close>: its only SDK call is \<open>RemoveBucket\<close> on the
  bucket.  \<open>RemoveIncompleteUpload\<close> is called exactly when \<open>incomplete\<close> is set and the
  object key is not empty.
\<close>

theorem Remove_incomplete_flag:
  "(snd (url2BucketAndObject c) = [] \<longrightarrow>
      Remove c a True = Remove c a False \<and>
      snd (Remove c a True) = [Call_RemoveBucket (fst (url2BucketAndObject c))])
   \<and> ((\<exists>b k. Call_RemoveIncompleteUpload b k \<in> set (snd (Remove c a incomplete)))
        \<longleftrightarrow> (incomplete \<and> snd (url2BucketAndObject c) \<noteq> []))"
  by (cases "url2BucketAndObject c") (auto simp: Remove_def)

theorem Remove_incomplete_flag_witness:
  "snd (url2BucketAndObject (minioClient ''/bkt'')) = []
   \<and> snd (Remove (minioClient ''/bkt'') (exampleApi ([], None) [] (True, None)) True)
       = [Call_RemoveBucket ''bkt'']
   \<and> snd (Remove (minioClient ''/bkt/k'') (exampleApi ([], None) [] (True, None)) True)
       = [Call_RemoveIncompleteUpload ''bkt'' ''k'']"
  using Remove_incomplete_flag[of "minioClient ''/bkt''" "exampleApi ([], None) [] (True, None)" True]
        Remove_incomplete_flag[of "minioClient ''/bkt/k''" "exampleApi ([], None) [] (True, None)" True]
  by (simp add: url_bkt url_bkt_k Remove_def)

section \<open>Address resolution\<close>

lemma strings_SplitN_length: "length (strings_SplitN s sep n) \<le> n"
  by (induction s sep n rule: strings_SplitN.induct) auto

lemma strings_SplitN_3_empty: "strings_SplitN [] sep 3 = [[]]"
  by (simp add: numeral_3_eq_3)

lemma takeWhile_sep: "sep \<notin> set b \<Longrightarrow> takeWhile (\<lambda>c. c \<noteq> sep) (b @ sep # r) = b"
  by (induction b) auto

lemma dropWhile_sep: "sep \<notin> set b \<Longrightarrow> dropWhile (\<lambda>c. c \<noteq> sep) (b @ sep # r) = sep # r"
  by (induction b) auto

lemma strings_SplitN_3_bucket:
  "sep \<notin> set b \<Longrightarrow> strings_SplitN (sep # b) sep 3 = [[], b]"
  by (simp add: numeral_3_eq_3)

lemma strings_SplitN_3_object:
  "sep \<notin> set b \<Longrightarrow> strings_SplitN (sep # b @ sep # r) sep 3 = [[], b, r]"
  by (simp add: numeral_3_eq_3 takeWhile_sep dropWhile_sep)

lemma strings_Index_lower: "- 1 \<le> strings_Index s sub"
  by (induction s sub rule: strings_Index.induct) (auto simp: Let_def)

lemma splitBucketObject_fields:
  "length splits \<le> 3 \<Longrightarrow> splitBucketObject splits = (field splits 1, field splits 2)"
  unfolding splitBucketObject_def field_def
  by (auto split: list.splits)

text \<open>
  Claim C6.  \<open>url2BucketAndObject\<close> splits the effective path on the separator into at
  most three fields and returns the second and third field, an absent field being the
  empty string: an empty path gives \<open>("", "")\<close>, a path \<open>/bucket\<close> gives
  \<open>(bucket, "")\<close> and a path \<open>/bucket/object\<close> gives \<open>(bucket, object)\<close>.  For a
  virtual-host-style client whose host has the provider marker at position 0 or not at
  all, no bucket is taken from the host: the path that is split is the URL path itself,
  and the result is that of the path-style resolution.
\<close>

theorem url2BucketAndObject_fields:
  "length (strings_SplitN (effectivePath c) (Separator (targetURL c)) 3) \<le> 3
   \<and> url2BucketAndObject c =
        (field (strings_SplitN (effectivePath c) (Separator (targetURL c)) 3) 1,
         field (strings_SplitN (effectivePath c) (Separator (targetURL c)) 3) 2)
   \<and> (effectivePath c = [] \<longrightarrow> url2BucketAndObject c = ([], []))
   \<and> (effectivePath c = Separator (targetURL c) # b \<and> Separator (targetURL c) \<notin> set b
        \<longrightarrow> url2BucketAndObject c = (b, []))
   \<and> (effectivePath c = Separator (targetURL c) # b @ Separator (targetURL c) # k
          \<and> Separator (targetURL c) \<notin> set b
        \<longrightarrow> url2BucketAndObject c = (b, k))
   \<and> (virtualStyle c \<and> hostIndex (Host (targetURL c)) \<le> 0
        \<longrightarrow> effectivePath c = Path (targetURL c)
            \<and> url2BucketAndObject c = url2BucketAndObject (c\<lparr>virtualStyle := False\<rparr>))"
proof (intro conjI impI)
  show "length (strings_SplitN (effectivePath c) (Separator (targetURL c)) 3) \<le> 3"
    by (rule strings_SplitN_length)
  then show "url2BucketAndObject c =
        (field (strings_SplitN (effectivePath c) (Separator (targetURL c)) 3) 1,
         field (strings_SplitN (effectivePath c) (Separator (targetURL c)) 3) 2)"
    unfolding url2BucketAndObject_def by (rule splitBucketObject_fields)
next
  assume "effectivePath c = []"
  then show "url2BucketAndObject c = ([], [])"
    by (simp add: url2BucketAndObject_def strings_SplitN_3_empty splitBucketObject_def)
next
  assume "effectivePath c = Separator (targetURL c) # b \<and> Separator (targetURL c) \<notin> set b"
  then show "url2BucketAndObject c = (b, [])"
    by (simp add: url2BucketAndObject_def strings_SplitN_3_bucket splitBucketObject_def)
next
  assume "effectivePath c = Separator (targetURL c) # b @ Separator (targetURL c) # k
          \<and> Separator (targetURL c) \<notin> set b"
  then show "url2BucketAndObject c = (b, k)"
    by (simp add: url2BucketAndObject_def strings_SplitN_3_object splitBucketObject_def)
next
  assume a: "virtualStyle c \<and> hostIndex (Host (targetURL c)) \<le> 0"
  then show "effectivePath c = Path (targetURL c)"
    by (simp add: effectivePath_def Let_def)
  from a show "url2BucketAndObject c = url2BucketAndObject (c\<lparr>virtualStyle := False\<rparr>)"
    by (simp add: url2BucketAndObject_def effectivePath_def Let_def)
qed

theorem url2BucketAndObject_fields_witness:
  "url2BucketAndObject (minioClient []) = ([], [])
   \<and> url2BucketAndObject (minioClient ''/bkt'') = (''bkt'', [])
   \<and> url2BucketAndObject (minioClient ''/bkt/k'') = (''bkt'', ''k'')
   \<and> virtualStyle (newClient (exampleURL ''s3x.s3.amazonaws.com'' ''/bkt/k''))
   \<and> hostIndex (Host (targetURL (newClient (exampleURL ''s3x.s3.amazonaws.com'' ''/bkt/k'')))) \<le> 0
   \<and> url2BucketAndObject (newClient (exampleURL ''s3x.s3.amazonaws.com'' ''/bkt/k''))
       = url2BucketAndObject
           ((newClient (exampleURL ''s3x.s3.amazonaws.com'' ''/bkt/k''))\<lparr>virtualStyle := False\<rparr>)"
proof -
  let ?v = "newClient (exampleURL ''s3x.s3.amazonaws.com'' ''/bkt/k'')"
  have e1: "effectivePath (minioClient []) = []"
    by code_simp
  have e2: "effectivePath (minioClient ''/bkt'') = Separator (targetURL (minioClient ''/bkt'')) # ''bkt''
            \<and> Separator (targetURL (minioClient ''/bkt'')) \<notin> set ''bkt''"
    by code_simp
  have e3: "effectivePath (minioClient ''/bkt/k'')
              = Separator (targetURL (minioClient ''/bkt/k'')) # ''bkt''
                  @ Separator (targetURL (minioClient ''/bkt/k'')) # ''k''
            \<and> Separator (targetURL (minioClient ''/bkt/k'')) \<notin> set ''bkt''"
    by code_simp
  have e4: "virtualStyle ?v \<and> hostIndex (Host (targetURL ?v)) \<le> 0"
    by code_simp
  have 1: "url2BucketAndObject (minioClient []) = ([], [])"
    using url2BucketAndObject_fields[of "minioClient []" "[]" "[]"] e1 by blast
  have 2: "url2BucketAndObject (minioClient ''/bkt'') = (''bkt'', [])"
    using url2BucketAndObject_fields[of "minioClient ''/bkt''" "''bkt''" "[]"] e2 by blast
  have 3: "url2BucketAndObject (minioClient ''/bkt/k'') = (''bkt'', ''k'')"
    using url2BucketAndObject_fields[of "minioClient ''/bkt/k''" "''bkt''" "''k''"] e3 by blast
  have 4: "url2BucketAndObject ?v = url2BucketAndObject (?v\<lparr>virtualStyle := False\<rparr>)"
    using url2BucketAndObject_fields[of ?v "[]" "[]"] e4 by blast
  from 1 2 3 4 e4 show ?thesis by blast
qed

subsection \<open>Virtual-host and path-style resolution\<close>

lemma strings_Index_Cons:
  "strings_Index (x # t) m =
     (if strings_HasPrefix (x # t) m then 0
      else if strings_Index t m = -1 then -1 else strings_Index t m + 1)"
  by (simp add: Let_def)

lemma HasPrefix_append_dot:
  assumes "\<not> strings_HasPrefix b m" "CHR ''.'' \<notin> set m"
  shows "\<not> strings_HasPrefix (b @ CHR ''.'' # r) m"
proof
  assume h: "strings_HasPrefix (b @ CHR ''.'' # r) m"
  then have t: "take (length m) (b @ CHR ''.'' # r) = m"
    by (simp add: strings_HasPrefix_def)
  show False
  proof (cases "length m \<le> length b")
    case True
    with t have "take (length m) b = m" by simp
    with True assms(1) show False by (simp add: strings_HasPrefix_def)
  next
    case False
    then have "length b < length m" by simp
    then have "m ! length b = (b @ CHR ''.'' # r) ! length b"
      using t by (metis nth_take)
    then have "m ! length b = CHR ''.''" by simp
    with \<open>length b < length m\<close> assms(2) show False by (metis nth_mem)
  qed
qed

lemma strings_Index_absent_prefix:
  "strings_Index s m = -1 \<Longrightarrow> \<not> strings_HasPrefix s m"
  using strings_Index_lower[of s m]
  by (cases s) (auto simp: strings_HasPrefix_def Let_def split: if_splits)

lemma strings_Index_absent_tail:
  "strings_Index (x # t) m = -1 \<Longrightarrow> strings_Index t m = -1"
  using strings_Index_lower[of t m]
  by (auto simp: Let_def split: if_splits)

lemma strings_Index_after_dot:
  assumes "strings_Index b m = -1" "CHR ''.'' \<notin> set m"
  shows "strings_Index (b @ CHR ''.'' # m @ r) m = int (length b) + 1"
  using assms(1)
proof (induction b)
  case Nil
  then have "m \<noteq> []" by auto
  then have "\<not> strings_HasPrefix (CHR ''.'' # m @ r) m"
    using assms(2) HasPrefix_append_dot[of "[]" m "m @ r"]
    by (simp add: strings_HasPrefix_def)
  moreover have "strings_Index (m @ r) m = 0"
    using \<open>m \<noteq> []\<close> by (cases m) (simp_all add: strings_HasPrefix_def)
  ultimately show ?case by (simp add: Let_def)
next
  case (Cons x b)
  from Cons.prems have a: "\<not> strings_HasPrefix (x # b) m"
    by (rule strings_Index_absent_prefix)
  from Cons.prems have "strings_Index b m = -1"
    by (rule strings_Index_absent_tail)
  then have ih: "strings_Index (b @ CHR ''.'' # m @ r) m = int (length b) + 1"
    by (rule Cons.IH)
  from a assms(2) have "\<not> strings_HasPrefix ((x # b) @ CHR ''.'' # m @ r) m"
    by (rule HasPrefix_append_dot)
  with ih show ?case by (simp add: Let_def)
qed

lemma hostIndex_amazon:
  "strings_Index bucket ''s3'' = -1 \<Longrightarrow>
     hostIndex (bucket @ ''.s3'' @ rest) = int (length bucket) + 1"
  using strings_Index_after_dot[of bucket "''s3''" rest]
  by (simp add: hostIndex_def Let_def)

lemma virtual_host_resolution:
  assumes "virtualStyle c" "Separator (targetURL c) = CHR ''/''"
    and "hostIndex (Host (targetURL c)) = int (length bucket) + 1"
    and "take (length bucket) (Host (targetURL c)) = bucket"
    and "CHR ''/'' \<notin> set bucket" "Path (targetURL c) = CHR ''/'' # object"
  shows "url2BucketAndObject c = (bucket, object)"
proof -
  have "effectivePath c = CHR ''/'' # bucket @ CHR ''/'' # object"
    using assms by (simp add: effectivePath_def Let_def)
  then show ?thesis
    using assms(2,5)
    by (simp add: url2BucketAndObject_def strings_SplitN_3_object splitBucketObject_def)
qed

lemma path_style_resolution:
  assumes "\<not> virtualStyle c" "Separator (targetURL c) = CHR ''/''"
    and "CHR ''/'' \<notin> set bucket" "Path (targetURL c) = CHR ''/'' # bucket @ CHR ''/'' # object"
  shows "url2BucketAndObject c = (bucket, object)"
proof -
  have "effectivePath c = CHR ''/'' # bucket @ CHR ''/'' # object"
    using assms by (simp add: effectivePath_def Let_def)
  then show ?thesis
    using assms(2,3)
    by (simp add: url2BucketAndObject_def strings_SplitN_3_object splitBucketObject_def)
qed

text \<open>
  Where the bucket name does not contain \<open>s3\<close>, the resolution of an Amazon
  virtual-host URL \<open>bucket.s3...\<close> with the path \<open>/object\<close> agrees with the path-style
  resolution of \<open>/bucket/object\<close>.
\<close>

lemma virtual_host_agrees_amazon:
  assumes "strings_Index bucket ''s3'' = -1" "CHR ''/'' \<notin> set bucket"
  shows "url2BucketAndObject
           \<lparr>targetURL = exampleURL (bucket @ ''.s3'' @ rest) (CHR ''/'' # object), virtualStyle = True\<rparr>
         = url2BucketAndObject
           \<lparr>targetURL = exampleURL h (CHR ''/'' # bucket @ CHR ''/'' # object), virtualStyle = False\<rparr>"
proof -
  have "url2BucketAndObject
           \<lparr>targetURL = exampleURL (bucket @ ''.s3'' @ rest) (CHR ''/'' # object), virtualStyle = True\<rparr>
        = (bucket, object)"
    using assms hostIndex_amazon[OF assms(1), of rest]
    by (intro virtual_host_resolution) (simp_all add: exampleURL_def)
  moreover have "url2BucketAndObject
           \<lparr>targetURL = exampleURL h (CHR ''/'' # bucket @ CHR ''/'' # object), virtualStyle = False\<rparr>
        = (bucket, object)"
    using assms by (intro path_style_resolution) (simp_all add: exampleURL_def)
  ultimately show ?thesis by simp
qed

text \<open>
  Claim C2.  For a host that matches a provider's virtual-host pattern, the resolution
  should give the pair that path-style resolution gives for \<open>/<bucket>/<object>\<close>.
  The source looks for the first occurrence of \<open>s3\<close> anywhere in the host, so a bucket
  name that contains \<open>s3\<close> is cut short: the host \<open>news3.s3.amazonaws.com\<close> with the
  path \<open>/k\<close> resolves to the bucket \<open>ne\<close>, while the path-style URL \<open>/news3/k\<close>
  resolves to the bucket \<open>news3\<close>.
\<close>

theorem url2BucketAndObject_virtual_host_mismatch:
  "isVirtualHostStyle ''news3.s3.amazonaws.com''
   \<and> virtualStyle (newClient (exampleURL ''news3.s3.amazonaws.com'' ''/k''))
   \<and> url2BucketAndObject (newClient (exampleURL ''news3.s3.amazonaws.com'' ''/k''))
       = (''ne'', ''k'')
   \<and> \<not> virtualStyle (newClient (exampleURL ''s3.amazonaws.com'' ''/news3/k''))
   \<and> url2BucketAndObject (newClient (exampleURL ''s3.amazonaws.com'' ''/news3/k''))
       = (''news3'', ''k'')"
  by code_simp

section \<open>Watch\<close>

lemma watchEvents_unsupported:
  "\<exists>e \<in> set evs. e \<noteq> ''put'' \<and> e \<noteq> ''delete'' \<Longrightarrow> watchEvents acc evs = Inl InvalidArgument"
  by (induction evs arbitrary: acc) auto

lemma watchEvents_supported:
  "\<forall>e \<in> set evs. e = ''put'' \<or> e = ''delete'' \<Longrightarrow>
     watchEvents acc evs =
       Inr (acc @ map (\<lambda>e. if e = ''put'' then ObjectCreatedAll else ObjectRemovedAll) evs)"
  by (induction evs arbitrary: acc) auto

lemma watchEvents_error: "watchEvents acc evs = Inl err \<Longrightarrow> err = InvalidArgument"
  by (induction evs arbitrary: acc) (auto split: if_splits)

lemma Watch_failure_opens_nothing:
  "fst (Watch c params) = Inl err \<Longrightarrow> snd (Watch c params) = []"
  by (cases "url2BucketAndObject c")
     (auto simp: Watch_def Let_def split: option.splits sum.splits if_splits)

text \<open>
  Claim C8, amended.  \<open>Watch\<close> validates the bucket name first: with an invalid bucket
  name it fails with the validation error.  With a valid bucket name it fails with
  \<open>InvalidArgument\<close> whenever an event name other than \<open>put\<close> or \<open>delete\<close> is
  given, or a non-empty object key and a non-empty prefix are both supplied; and when
  the event names are supported, the object key is non-empty and the prefix is empty,
  the subscription is opened with the object key as its prefix.  No failing call opens
  a subscription: its list of SDK calls is empty.
\<close>

theorem Watch_invalid_argument:
  "(isValidBucketName (fst (url2BucketAndObject c)) = None \<longrightarrow>
     (((\<exists>e \<in> set (events params). e \<noteq> ''put'' \<and> e \<noteq> ''delete'')
        \<or> (snd (url2BucketAndObject c) \<noteq> [] \<and> prefix params \<noteq> [])
       \<longrightarrow> Watch c params = (Inl InvalidArgument, []))
      \<and> ((\<forall>e \<in> set (events params). e = ''put'' \<or> e = ''delete'')
          \<and> snd (url2BucketAndObject c) \<noteq> [] \<and> prefix params = []
       \<longrightarrow> Watch c params =
             (Inr (params\<lparr>prefix := snd (url2BucketAndObject c)\<rparr>),
              [Call_ListenBucketNotification (fst (url2BucketAndObject c))
                 (snd (url2BucketAndObject c)) (suffix params)
                 (map (\<lambda>e. if e = ''put'' then ObjectCreatedAll else ObjectRemovedAll)
                    (events params))]))))
   \<and> (isValidBucketName (fst (url2BucketAndObject c)) = Some err \<longrightarrow>
        Watch c params = (Inl err, []))"
proof (intro impI conjI)
  obtain b k where bk: "url2BucketAndObject c = (b, k)" by (cases "url2BucketAndObject c")
  {
    assume "isValidBucketName (fst (url2BucketAndObject c)) = Some err"
    with bk show "Watch c params = (Inl err, [])" by (simp add: Watch_def)
  }
  assume v: "isValidBucketName (fst (url2BucketAndObject c)) = None"
  {
    assume "(\<exists>e \<in> set (events params). e \<noteq> ''put'' \<and> e \<noteq> ''delete'')
        \<or> (snd (url2BucketAndObject c) \<noteq> [] \<and> prefix params \<noteq> [])"
    then show "Watch c params = (Inl InvalidArgument, [])"
    proof
      assume "\<exists>e \<in> set (events params). e \<noteq> ''put'' \<and> e \<noteq> ''delete''"
      then have "watchEvents [] (events params) = Inl InvalidArgument"
        by (rule watchEvents_unsupported)
      with v bk show ?thesis by (simp add: Watch_def)
    next
      assume p: "snd (url2BucketAndObject c) \<noteq> [] \<and> prefix params \<noteq> []"
      show ?thesis
      proof (cases "watchEvents [] (events params)")
        case (Inl e)
        then have "e = InvalidArgument" by (rule watchEvents_error)
        with Inl v bk show ?thesis by (simp add: Watch_def)
      next
        case (Inr evs)
        with v bk p show ?thesis by (simp add: Watch_def)
      qed
    qed
  }
  {
    assume a: "(\<forall>e \<in> set (events params). e = ''put'' \<or> e = ''delete'')
          \<and> snd (url2BucketAndObject c) \<noteq> [] \<and> prefix params = []"
    then have "watchEvents [] (events params) =
       Inr (map (\<lambda>e. if e = ''put'' then ObjectCreatedAll else ObjectRemovedAll) (events params))"
      using watchEvents_supported[of "events params" "[]"] by simp
    with v bk a show "Watch c params =
             (Inr (params\<lparr>prefix := snd (url2BucketAndObject c)\<rparr>),
              [Call_ListenBucketNotification (fst (url2BucketAndObject c))
                 (snd (url2BucketAndObject c)) (suffix params)
                 (map (\<lambda>e. if e = ''put'' then ObjectCreatedAll else ObjectRemovedAll)
                    (events params))])"
      by (simp add: Watch_def)
  }
qed

theorem Watch_invalid_argument_witness:
  "Watch (minioClient ''/bkt/k'') \<lparr>events = [''put'', ''get''], prefix = [], suffix = []\<rparr>
     = (Inl InvalidArgument, [])
   \<and> Watch (minioClient ''/bkt/k'') \<lparr>events = [''put''], prefix = ''p'', suffix = []\<rparr>
     = (Inl InvalidArgument, [])
   \<and> Watch (minioClient ''/bkt/k'') \<lparr>events = [''put''], prefix = [], suffix = ''.txt''\<rparr>
     = (Inr \<lparr>events = [''put''], prefix = ''k'', suffix = ''.txt''\<rparr>,
        [Call_ListenBucketNotification ''bkt'' ''k'' ''.txt'' [''s3:ObjectCreated:*'']])
   \<and> snd (Watch (minioClient ''/ab'') \<lparr>events = [''put''], prefix = [], suffix = []\<rparr>) = []"
proof -
  let ?c = "minioClient ''/bkt/k''"
  have u: "url2BucketAndObject ?c = (''bkt'', ''k'')" by code_simp
  have v: "isValidBucketName (fst (url2BucketAndObject ?c)) = None" by code_simp
  have 1: "Watch ?c \<lparr>events = [''put'', ''get''], prefix = [], suffix = []\<rparr> = (Inl InvalidArgument, [])"
    using Watch_invalid_argument[of ?c "\<lparr>events = [''put'', ''get''], prefix = [], suffix = []\<rparr>"] v
    by simp
  have 2: "Watch ?c \<lparr>events = [''put''], prefix = ''p'', suffix = []\<rparr> = (Inl InvalidArgument, [])"
    using Watch_invalid_argument[of ?c "\<lparr>events = [''put''], prefix = ''p'', suffix = []\<rparr>"] v u
    by simp
  have 3: "Watch ?c \<lparr>events = [''put''], prefix = [], suffix = ''.txt''\<rparr>
     = (Inr \<lparr>events = [''put''], prefix = ''k'', suffix = ''.txt''\<rparr>,
        [Call_ListenBucketNotification ''bkt'' ''k'' ''.txt'' [''s3:ObjectCreated:*'']])"
    using Watch_invalid_argument[of ?c "\<lparr>events = [''put''], prefix = [], suffix = ''.txt''\<rparr>"] v u
    by (simp add: ObjectCreatedAll_def)
  have "isValidBucketName (fst (url2BucketAndObject (minioClient ''/ab''))) \<noteq> None"
    by code_simp
  then obtain err where "isValidBucketName (fst (url2BucketAndObject (minioClient ''/ab''))) = Some err"
    by blast
  then have 4: "snd (Watch (minioClient ''/ab'') \<lparr>events = [''put''], prefix = [], suffix = []\<rparr>) = []"
    using Watch_invalid_argument[of "minioClient ''/ab''" _ err] by simp
  from 1 2 3 4 show ?thesis by blast
qed

text \<open>
  The claim as stated fails: with the two-byte bucket name \<open>ab\<close> and the unsupported
  event name \<open>get\<close>, \<open>Watch\<close> fails with the bucket-name error, not with
  \<open>InvalidArgument\<close>.
\<close>

theorem Watch_invalid_argument_counterexample:
  "''get'' \<in> set (events \<lparr>events = [''get''], prefix = [], suffix = []\<rparr>)
   \<and> ''get'' \<noteq> ''put'' \<and> ''get'' \<noteq> ''delete''
   \<and> fst (Watch (minioClient ''/ab'') \<lparr>events = [''get''], prefix = [], suffix = []\<rparr>)
        \<noteq> Inl InvalidArgument"
  by code_simp

section \<open>Stat\<close>

lemma statLoop_find:
  "statLoop c k entries =
     (case find (\<lambda>e. Err e \<noteq> None \<or> Key e = k
                      \<or> strings_HasSuffix (Key e) [Separator (targetURL c)]) entries of
        None \<Rightarrow> Inl ObjectMissing
      | Some e \<Rightarrow>
          (case Err e of
             Some x \<Rightarrow> Inl (BackendError x)
           | None \<Rightarrow>
               if Key e = k
               then Inr (zeroContent\<lparr>content_URL := targetURL c,
                                     content_Time := LastModified e,
                                     content_Size := Size e,
                                     content_Type := Mode0664\<rparr>)
               else Inr (zeroContent\<lparr>content_URL := targetURL c, content_Type := ModeDir\<rparr>)))"
  by (induction entries) (auto split: option.splits)

text \<open>
  Claim C7, amended.  \<open>Stat\<close> with an empty bucket name fails with \<open>BucketNameEmpty\<close>.
  With a non-empty bucket and an empty object it asks the backend whether the bucket
  exists: an error of the check is returned as it is, a negative answer fails with
  \<open>BucketDoesNotExist\<close>, a positive answer gives a Directory item.  With a non-empty
  object it strips the trailing separators, lists non-recursively and takes the first
  entry that carries an error, or whose key equals the trimmed key, or whose key ends
  in the separator: the result is that backend error, an Object item with the entry's
  size and time, or a Directory item, in this order of tests; with no such entry it
  fails with \<open>ObjectMissing\<close>.  The only outcomes are \<open>BucketNameEmpty\<close>,
  \<open>BucketDoesNotExist\<close>, \<open>ObjectMissing\<close>, a backend error, a Directory item and an
  Object item.
\<close>

theorem Stat_outcomes:
  "(fst (url2BucketAndObject c) = [] \<longrightarrow> Stat c a = Inl BucketNameEmpty)
   \<and> (fst (url2BucketAndObject c) \<noteq> [] \<and> snd (url2BucketAndObject c) = [] \<longrightarrow>
        Stat c a =
          (case snd (BucketExists a (fst (url2BucketAndObject c))) of
             Some e \<Rightarrow> Inl (BackendError e)
           | None \<Rightarrow>
               if fst (BucketExists a (fst (url2BucketAndObject c)))
               then Inr (zeroContent\<lparr>content_URL := targetURL c, content_Type := ModeDir\<rparr>)
               else Inl (BucketDoesNotExist (fst (url2BucketAndObject c)))))
   \<and> (fst (url2BucketAndObject c) \<noteq> [] \<and> snd (url2BucketAndObject c) \<noteq> [] \<longrightarrow>
        Stat c a =
          (let k = strings_TrimRight (snd (url2BucketAndObject c)) [Separator (targetURL c)]
           in case find (\<lambda>e. Err e \<noteq> None \<or> Key e = k
                               \<or> strings_HasSuffix (Key e) [Separator (targetURL c)])
                     (listObjectWrapper c a (fst (url2BucketAndObject c)) k False) of
                None \<Rightarrow> Inl ObjectMissing
              | Some e \<Rightarrow>
                  (case Err e of
                     Some x \<Rightarrow> Inl (BackendError x)
                   | None \<Rightarrow>
                       if Key e = k
                       then Inr (zeroContent\<lparr>content_URL := targetURL c,
                                             content_Time := LastModified e,
                                             content_Size := Size e,
                                             content_Type := Mode0664\<rparr>)
                       else Inr (zeroContent\<lparr>content_URL := targetURL c,
                                             content_Type := ModeDir\<rparr>))))
   \<and> (Stat c a = Inl BucketNameEmpty
        \<or> Stat c a = Inl (BucketDoesNotExist (fst (url2BucketAndObject c)))
        \<or> Stat c a = Inl ObjectMissing
        \<or> (\<exists>x. Stat c a = Inl (BackendError x))
        \<or> (\<exists>item. Stat c a = Inr item \<and> content_Err item = None
              \<and> content_URL item = targetURL c
              \<and> (content_Type item = ModeDir \<or> content_Type item = Mode0664)))"
proof -
  obtain b k where bk: "url2BucketAndObject c = (b, k)" by (cases "url2BucketAndObject c")
  have 1: "b = [] \<longrightarrow> Stat c a = Inl BucketNameEmpty"
    using bk by (simp add: Stat_def)
  have 2: "b \<noteq> [] \<and> k = [] \<longrightarrow>
        Stat c a =
          (case snd (BucketExists a b) of
             Some e \<Rightarrow> Inl (BackendError e)
           | None \<Rightarrow>
               if fst (BucketExists a b)
               then Inr (zeroContent\<lparr>content_URL := targetURL c, content_Type := ModeDir\<rparr>)
               else Inl (BucketDoesNotExist b))"
    using bk by (cases "BucketExists a b") (auto simp: Stat_def split: option.splits)
  have 3: "b \<noteq> [] \<and> k \<noteq> [] \<longrightarrow>
        Stat c a =
          (let k' = strings_TrimRight k [Separator (targetURL c)]
           in case find (\<lambda>e. Err e \<noteq> None \<or> Key e = k'
                               \<or> strings_HasSuffix (Key e) [Separator (targetURL c)])
                     (listObjectWrapper c a b k' False) of
                None \<Rightarrow> Inl ObjectMissing
              | Some e \<Rightarrow>
                  (case Err e of
                     Some x \<Rightarrow> Inl (BackendError x)
                   | None \<Rightarrow>
                       if Key e = k'
                       then Inr (zeroContent\<lparr>content_URL := targetURL c,
                                             content_Time := LastModified e,
                                             content_Size := Size e,
                                             content_Type := Mode0664\<rparr>)
                       else Inr (zeroContent\<lparr>content_URL := targetURL c,
                                             content_Type := ModeDir\<rparr>)))"
    using bk by (simp add: Stat_def Let_def statLoop_find)
  have 4: "Stat c a = Inl BucketNameEmpty
        \<or> Stat c a = Inl (BucketDoesNotExist b)
        \<or> Stat c a = Inl ObjectMissing
        \<or> (\<exists>x. Stat c a = Inl (BackendError x))
        \<or> (\<exists>item. Stat c a = Inr item \<and> content_Err item = None
              \<and> content_URL item = targetURL c
              \<and> (content_Type item = ModeDir \<or> content_Type item = Mode0664))"
  proof (cases "b = []")
    case True
    with 1 show ?thesis by simp
  next
    case False
    show ?thesis
    proof (cases "k = []")
      case True
      with False 2 show ?thesis
        by (auto simp: zeroContent_def split: option.splits if_splits)
    next
      case False
      with \<open>b \<noteq> []\<close> 3 show ?thesis
        by (auto simp: zeroContent_def Let_def split: option.splits if_splits)
    qed
  qed
  from 1 2 3 4 show ?thesis unfolding bk fst_conv snd_conv by blast
qed

theorem Stat_outcomes_witness:
  "Stat (minioClient []) (exampleApi ([], None) [] (True, None)) = Inl BucketNameEmpty
   \<and> Stat (minioClient ''/bkt'') (exampleApi ([], None) [] (True, None))
       = Inr (zeroContent\<lparr>content_URL := targetURL (minioClient ''/bkt''),
                           content_Type := ModeDir\<rparr>)
   \<and> Stat (minioClient ''/bkt'') (exampleApi ([], None) [] (False, None))
       = Inl (BucketDoesNotExist ''bkt'')
   \<and> Stat (minioClient ''/bkt/k/'') (exampleApi ([], None) [exampleObject ''k'' 3] (True, None))
       = Inr (zeroContent\<lparr>content_URL := targetURL (minioClient ''/bkt/k/''),
                           content_Time := 1000, content_Size := 3,
                           content_Type := Mode0664\<rparr>)
   \<and> Stat (minioClient ''/bkt/k'') (exampleApi ([], None) [] (True, None)) = Inl ObjectMissing"
proof -
  let ?a = "exampleApi ([], None) [] (True, None)"
  let ?n = "exampleApi ([], None) [] (False, None)"
  let ?k = "exampleApi ([], None) [exampleObject ''k'' 3] (True, None)"
  have u0: "url2BucketAndObject (minioClient []) = ([], [])" by code_simp
  have u1: "url2BucketAndObject (minioClient ''/bkt'') = (''bkt'', [])" by code_simp
  have u2: "url2BucketAndObject (minioClient ''/bkt/k/'') = (''bkt'', ''k/'')" by code_simp
  have u3: "url2BucketAndObject (minioClient ''/bkt/k'') = (''bkt'', ''k'')" by code_simp
  have 0: "Stat (minioClient []) ?a = Inl BucketNameEmpty"
    using Stat_outcomes[of "minioClient []" ?a] u0 by simp
  have 1: "Stat (minioClient ''/bkt'') ?a
       = Inr (zeroContent\<lparr>content_URL := targetURL (minioClient ''/bkt''),
                           content_Type := ModeDir\<rparr>)"
    using Stat_outcomes[of "minioClient ''/bkt''" ?a] u1 by (simp add: exampleApi_def)
  have 2: "Stat (minioClient ''/bkt'') ?n = Inl (BucketDoesNotExist ''bkt'')"
    using Stat_outcomes[of "minioClient ''/bkt''" ?n] u1 by (simp add: exampleApi_def)
  have 3: "Stat (minioClient ''/bkt/k/'') ?k
       = Inr (zeroContent\<lparr>content_URL := targetURL (minioClient ''/bkt/k/''),
                           content_Time := 1000, content_Size := 3,
                           content_Type := Mode0664\<rparr>)"
    apply (rule trans[OF mp[OF conjunct1[OF conjunct2[OF conjunct2[OF
             Stat_outcomes[of "minioClient ''/bkt/k/''" ?k]]]]]])
     apply (simp add: u2)
    apply code_simp
    done
  have 4: "Stat (minioClient ''/bkt/k'') ?a = Inl ObjectMissing"
    apply (rule trans[OF mp[OF conjunct1[OF conjunct2[OF conjunct2[OF
             Stat_outcomes[of "minioClient ''/bkt/k''" ?a]]]]]])
     apply (simp add: u3)
    apply code_simp
    done
  from 0 1 2 3 4 show ?thesis by blast
qed

text \<open>
  The claim as stated fails twice.  When the existence check itself fails, \<open>Stat\<close>
  returns the backend's error, which is none of the three listed failures.  And a
  listing entry \<open>foobar/\<close> makes \<open>Stat\<close> of \<open>foo\<close> return a Directory item although
  the entry's key neither equals \<open>foo\<close> nor starts with \<open>foo/\<close>.
\<close>

theorem Stat_outcomes_counterexample:
  "Stat (minioClient ''/bkt'') (exampleApi ([], None) [] (False, Some ''AccessDenied''))
     = Inl (BackendError ''AccessDenied'')
   \<and> \<not> strings_HasPrefix ''foobar/'' ''foo/''
   \<and> ''foobar/'' \<noteq> ''foo''
   \<and> Stat (minioClient ''/bkt/foo'')
        (exampleApi ([], None) [exampleObject ''foobar/'' 0] (True, None))
     = Inr (zeroContent\<lparr>content_URL := targetURL (minioClient ''/bkt/foo''),
                         content_Type := ModeDir\<rparr>)"
  by code_simp

section \<open>Listing\<close>

lemma listInRoutine_default:
  "\<not> rootCase c \<Longrightarrow> \<not> bucketOnlyCase c \<Longrightarrow>
     listInRoutine c a now =
       listLoop c now (fst (url2BucketAndObject c)) 0
         (listObjectWrapper c a (fst (url2BucketAndObject c)) (snd (url2BucketAndObject c)) False)"
  by (cases "url2BucketAndObject c") (auto simp: listInRoutine_def rootCase_def bucketOnlyCase_def)

lemma listRecursiveInRoutine_default:
  "\<not> rootCase c \<Longrightarrow>
     listRecursiveInRoutine c a =
       listRecursiveLoop c (fst (url2BucketAndObject c))
         (listObjectWrapper c a (fst (url2BucketAndObject c)) (snd (url2BucketAndObject c)) True)"
  by (cases "url2BucketAndObject c") (auto simp: listRecursiveInRoutine_def rootCase_def)

lemma listRecursiveInRoutine_root:
  "rootCase c \<Longrightarrow>
     listRecursiveInRoutine c a =
       (case snd (ListBuckets a) of
          Some err \<Rightarrow> [errContent (BackendError err)]
        | None \<Rightarrow> listRecursiveBuckets c a [] (fst (ListBuckets a)))"
  by (cases "url2BucketAndObject c"; cases "ListBuckets a")
     (auto simp: listRecursiveInRoutine_def rootCase_def split: option.splits)

lemma listInRoutine_root_error:
  "rootCase c \<Longrightarrow> snd (ListBuckets a) = Some x \<Longrightarrow>
     listInRoutine c a now = [errContent (BackendError x)]"
  by (cases "url2BucketAndObject c"; cases "ListBuckets a")
     (auto simp: listInRoutine_def rootCase_def)

lemma List_contents_dispatch:
  "List_contents c a now False False = listInRoutine c a now"
  "List_contents c a now True False = listRecursiveInRoutine c a"
  "List_contents c a now False True = listIncompleteInRoutine c a now"
  "List_contents c a now True True = listIncompleteRecursiveInRoutine c a"
  by (simp_all add: List_contents_def)

text \<open>In both listings of incomplete uploads a per-item error ends the loop and the routine.\<close>

lemma listIncompleteLoop_error:
  "\<forall>p \<in> set pre. upload_Err p = None \<Longrightarrow> upload_Err e = Some x \<Longrightarrow>
     listIncompleteLoop c now b k (pre @ e # post) =
       (fst (listIncompleteLoop c now b k pre) @ [errContent (BackendError x)], True)"
  by (induction pre arbitrary: k) (auto simp: Let_def split: prod.splits)

lemma listIncompleteRecursiveLoop_error:
  "\<forall>p \<in> set pre. upload_Err p = None \<Longrightarrow> upload_Err e = Some x \<Longrightarrow>
     listIncompleteRecursiveLoop mkURL (pre @ e # post) =
       (fst (listIncompleteRecursiveLoop mkURL pre) @ [errContent (BackendError x)], True)"
  by (induction pre) (auto simp: Let_def split: prod.splits)

lemma listLoop_length:
  "\<forall>e \<in> set objs. Err e = None \<Longrightarrow> length (listLoop c now b k objs) = length objs"
  by (induction objs arbitrary: k) auto

lemma listLoop_no_error:
  "\<forall>e \<in> set objs. Err e = None \<Longrightarrow> \<forall>item \<in> set (listLoop c now b k objs). content_Err item = None"
  by (induction objs arbitrary: k) (auto simp: zeroContent_def)

lemma listLoop_error:
  "\<forall>p \<in> set pre. Err p = None \<Longrightarrow> Err e = Some x \<Longrightarrow>
     listLoop c now b k (pre @ e # post) = listLoop c now b k pre @ [errContent (BackendError x)]"
  by (induction pre arbitrary: k) auto

lemma listLoop_nth:
  "\<forall>e \<in> set objs. Err e = None \<Longrightarrow> i < length objs \<Longrightarrow>
     listLoop c now b k objs ! i =
       (if strings_HasSuffix (Key (objs ! i)) [Separator (targetURL c)]
        then zeroContent\<lparr>content_URL := itemURL c b (Key (objs ! i)),
                          content_Time := now (k + i),
                          content_Type := ModeDir\<rparr>
        else zeroContent\<lparr>content_URL := itemURL c b (Key (objs ! i)),
                          content_Size := Size (objs ! i),
                          content_Time := LastModified (objs ! i),
                          content_Type := Mode0664\<rparr>)"
proof (induction objs arbitrary: k i)
  case Nil
  then show ?case by simp
next
  case (Cons e objs)
  show ?case
  proof (cases i)
    case 0
    with Cons.prems show ?thesis by simp
  next
    case (Suc j)
    with Cons.prems have "j < length objs" "\<forall>e \<in> set objs. Err e = None" by simp_all
    from Cons.IH[OF this(2) this(1), of "Suc k"] Cons.prems Suc show ?thesis by simp
  qed
qed

lemma listRecursiveLoop_append:
  "listRecursiveLoop c b (xs @ ys) = listRecursiveLoop c b xs @ listRecursiveLoop c b ys"
  by (induction xs) (auto split: option.splits)

lemma listRecursiveBucketLoop_append:
  "listRecursiveBucketLoop c n (xs @ ys) =
     listRecursiveBucketLoop c n xs @ listRecursiveBucketLoop c n ys"
  by (induction xs) (auto split: option.splits)

lemma listRecursiveBuckets_append:
  "listRecursiveBuckets c a ob (xs @ ys) = listRecursiveBuckets c a ob xs @ listRecursiveBuckets c a ob ys"
  by (induction xs) auto

lemma modes_distinct: "ModeDir \<noteq> Mode0664" "ModeDir \<noteq> 0" "Mode0664 \<noteq> 0" "ModeTemporary \<noteq> ModeDir"
  by (simp_all add: ModeDir_def Mode0664_def ModeTemporary_def)

text \<open>
  Claim C1, amended.  A per-item backend error during object enumeration is emitted as
  an item that carries the error.  On the flat (non-recursive) path this item is the
  last one: the entries after it are not enumerated.  On the recursive path the
  enumeration continues with the entries after it.  A failure of \<open>ListBuckets\<close> in the
  root case is emitted as one error item, which is the whole stream, on both paths.
\<close>

theorem List_per_item_errors:
  "(\<not> rootCase c \<and> \<not> bucketOnlyCase c
      \<and> listObjectWrapper c a (fst (url2BucketAndObject c)) (snd (url2BucketAndObject c)) False
           = pre @ e # post
      \<and> (\<forall>p \<in> set pre. Err p = None) \<and> Err e = Some x
     \<longrightarrow> listInRoutine c a now
           = listLoop c now (fst (url2BucketAndObject c)) 0 pre @ [errContent (BackendError x)]
         \<and> length (listInRoutine c a now) = Suc (length pre)
         \<and> (\<forall>item \<in> set (listLoop c now (fst (url2BucketAndObject c)) 0 pre).
               content_Err item = None))
   \<and> (\<not> rootCase c
      \<and> listObjectWrapper c a (fst (url2BucketAndObject c)) (snd (url2BucketAndObject c)) True
           = pre @ e # post
      \<and> Err e = Some x
     \<longrightarrow> listRecursiveInRoutine c a
           = listRecursiveLoop c (fst (url2BucketAndObject c)) pre
             @ errContent (BackendError x)
             # listRecursiveLoop c (fst (url2BucketAndObject c)) post)
   \<and> (rootCase c \<and> snd (ListBuckets a) = Some x
     \<longrightarrow> listInRoutine c a now = [errContent (BackendError x)]
         \<and> listRecursiveInRoutine c a = [errContent (BackendError x)])"
proof (intro conjI impI)
  assume h: "\<not> rootCase c \<and> \<not> bucketOnlyCase c
      \<and> listObjectWrapper c a (fst (url2BucketAndObject c)) (snd (url2BucketAndObject c)) False
           = pre @ e # post
      \<and> (\<forall>p \<in> set pre. Err p = None) \<and> Err e = Some x"
  then show 1: "listInRoutine c a now
           = listLoop c now (fst (url2BucketAndObject c)) 0 pre @ [errContent (BackendError x)]"
    by (simp add: listInRoutine_default listLoop_error)
  from h show "length (listInRoutine c a now) = Suc (length pre)"
    unfolding 1 by (simp add: listLoop_length)
  from h have "\<forall>p \<in> set pre. Err p = None" by blast
  then show "\<forall>item \<in> set (listLoop c now (fst (url2BucketAndObject c)) 0 pre).
               content_Err item = None"
    by (rule listLoop_no_error)
next
  assume "\<not> rootCase c
      \<and> listObjectWrapper c a (fst (url2BucketAndObject c)) (snd (url2BucketAndObject c)) True
           = pre @ e # post
      \<and> Err e = Some x"
  then show "listRecursiveInRoutine c a
           = listRecursiveLoop c (fst (url2BucketAndObject c)) pre
             @ errContent (BackendError x)
             # listRecursiveLoop c (fst (url2BucketAndObject c)) post"
    by (simp add: listRecursiveInRoutine_default listRecursiveLoop_append)
next
  assume h: "rootCase c \<and> snd (ListBuckets a) = Some x"
  then show "listInRoutine c a now = [errContent (BackendError x)]"
    by (simp add: listInRoutine_root_error)
  from h show "listRecursiveInRoutine c a = [errContent (BackendError x)]"
    by (simp add: listRecursiveInRoutine_root)
qed

theorem List_per_item_errors_witness:
  "(\<not> rootCase (minioClient ''/bkt/'') \<and> \<not> bucketOnlyCase (minioClient ''/bkt/'')
    \<and> Err (exampleObject ''a'' 3) = None
    \<and> Err (failedObject ''boom'') = Some ''boom''
    \<and> listInRoutine (minioClient ''/bkt/'')
          (exampleApi ([], None)
             [exampleObject ''a'' 3, failedObject ''boom'', exampleObject ''b'' 4] (True, None))
          exampleClock
        = listLoop (minioClient ''/bkt/'') exampleClock
            (fst (url2BucketAndObject (minioClient ''/bkt/''))) 0 [exampleObject ''a'' 3]
          @ [errContent (BackendError ''boom'')]
    \<and> listRecursiveInRoutine (minioClient ''/bkt/'')
          (exampleApi ([], None)
             [exampleObject ''a'' 3, failedObject ''boom'', exampleObject ''b'' 4] (True, None))
        = listRecursiveLoop (minioClient ''/bkt/'')
            (fst (url2BucketAndObject (minioClient ''/bkt/''))) [exampleObject ''a'' 3]
          @ errContent (BackendError ''boom'')
          # listRecursiveLoop (minioClient ''/bkt/'')
              (fst (url2BucketAndObject (minioClient ''/bkt/''))) [exampleObject ''b'' 4])
   \<and> (rootCase (minioClient ''/'')
      \<and> listInRoutine (minioClient ''/'') (exampleApi ([], Some ''denied'') [] (True, None))
            exampleClock
          = [errContent (BackendError ''denied'')]
      \<and> listRecursiveInRoutine (minioClient ''/'') (exampleApi ([], Some ''denied'') [] (True, None))
          = [errContent (BackendError ''denied'')])"
proof -
  let ?c = "minioClient ''/bkt/''"
  let ?a = "exampleApi ([], None)
             [exampleObject ''a'' 3, failedObject ''boom'', exampleObject ''b'' 4] (True, None)"
  let ?d = "exampleApi ([], Some ''denied'') [] (True, None)"
  have c: "\<not> rootCase ?c" "\<not> bucketOnlyCase ?c" by code_simp+
  have p: "\<forall>p \<in> set [exampleObject ''a'' 3]. Err p = None"
    by (simp add: exampleObject_def)
  have e: "Err (failedObject ''boom'') = Some ''boom''"
    by (simp add: failedObject_def)
  have l: "listObjectWrapper ?c ?a (fst (url2BucketAndObject ?c)) (snd (url2BucketAndObject ?c)) b
            = [exampleObject ''a'' 3] @ failedObject ''boom'' # [exampleObject ''b'' 4]" for b
    by (simp add: listObjectWrapper_def exampleApi_def)
  have r: "rootCase (minioClient ''/'')" by code_simp
  have s: "snd (ListBuckets ?d) = Some ''denied''" by (simp add: exampleApi_def)
  note t1 = List_per_item_errors[of ?c ?a "[exampleObject ''a'' 3]" "failedObject ''boom''"
              "[exampleObject ''b'' 4]" "''boom''" exampleClock]
  note t2 = List_per_item_errors[of "minioClient ''/''" ?d "[]" "failedObject ''boom''"
              "[]" "''denied''" exampleClock]
  from t1 c p e l[of False] have 1: "listInRoutine ?c ?a exampleClock
        = listLoop ?c exampleClock (fst (url2BucketAndObject ?c)) 0 [exampleObject ''a'' 3]
          @ [errContent (BackendError ''boom'')]" by blast
  from t1 c e l[of True] have 2: "listRecursiveInRoutine ?c ?a
        = listRecursiveLoop ?c (fst (url2BucketAndObject ?c)) [exampleObject ''a'' 3]
          @ errContent (BackendError ''boom'')
          # listRecursiveLoop ?c (fst (url2BucketAndObject ?c)) [exampleObject ''b'' 4]" by blast
  from t2 r s have 3: "listInRoutine (minioClient ''/'') ?d exampleClock
          = [errContent (BackendError ''denied'')]"
     "listRecursiveInRoutine (minioClient ''/'') ?d = [errContent (BackendError ''denied'')]"
    by blast+
  have p': "Err (exampleObject ''a'' 3) = None" by (simp add: exampleObject_def)
  from c p' e 1 2 r 3 show ?thesis by blast
qed

text \<open>
  The claim as stated has the two paths the wrong way round: with the entries \<open>a\<close>, a
  failed entry and \<open>b\<close>, the flat listing stops after the error item and the recursive
  listing goes on to \<open>b\<close>.
\<close>

theorem List_per_item_errors_counterexample:
  "length (listObjectWrapper (minioClient ''/bkt/'')
             (exampleApi ([], None)
                [exampleObject ''a'' 3, failedObject ''boom'', exampleObject ''b'' 4] (True, None))
             ''bkt'' [] False) = 3
   \<and> map content_Err
         (listInRoutine (minioClient ''/bkt/'')
            (exampleApi ([], None)
               [exampleObject ''a'' 3, failedObject ''boom'', exampleObject ''b'' 4] (True, None))
            exampleClock)
       = [None, Some (BackendError ''boom'')]
   \<and> map content_Err
         (listRecursiveInRoutine (minioClient ''/bkt/'')
            (exampleApi ([], None)
               [exampleObject ''a'' 3, failedObject ''boom'', exampleObject ''b'' 4] (True, None)))
       = [None, Some (BackendError ''boom''), None]"
  by code_simp

text \<open>
  Claim C4, amended.  In a non-recursive listing of a bucket or prefix whose entries
  carry no error, the items correspond one to one to the enumerated entries.  An entry
  whose key ends in the path separator, whatever its size, is emitted as a Directory
  item with size 0 whose time is the reading of the wall clock; every other entry is
  emitted as an Object item with the backend's size and last-modified time.
\<close>

theorem listInRoutine_directory_rule:
  "\<not> rootCase c \<and> \<not> bucketOnlyCase c
   \<and> listObjectWrapper c a (fst (url2BucketAndObject c)) (snd (url2BucketAndObject c)) False = objs
   \<and> (\<forall>e \<in> set objs. Err e = None)
   \<longrightarrow> length (listInRoutine c a now) = length objs
       \<and> (\<forall>i < length objs.
            listInRoutine c a now ! i =
              (if strings_HasSuffix (Key (objs ! i)) [Separator (targetURL c)]
               then zeroContent\<lparr>content_URL := itemURL c (fst (url2BucketAndObject c)) (Key (objs ! i)),
                                 content_Time := now i,
                                 content_Type := ModeDir\<rparr>
               else zeroContent\<lparr>content_URL := itemURL c (fst (url2BucketAndObject c)) (Key (objs ! i)),
                                 content_Size := Size (objs ! i),
                                 content_Time := LastModified (objs ! i),
                                 content_Type := Mode0664\<rparr>))"
  by (auto simp add: listInRoutine_default listLoop_length listLoop_nth simp del: listLoop.simps)

theorem listInRoutine_directory_rule_witness:
  "\<not> rootCase (minioClient ''/bkt/'') \<and> \<not> bucketOnlyCase (minioClient ''/bkt/'')
   \<and> Err (exampleObject ''a'' 3) = None \<and> Err (exampleObject ''dir/'' 0) = None
   \<and> length (listInRoutine (minioClient ''/bkt/'')
                (exampleApi ([], None) [exampleObject ''a'' 3, exampleObject ''dir/'' 0] (True, None))
                exampleClock) = 2
   \<and> listInRoutine (minioClient ''/bkt/'')
         (exampleApi ([], None) [exampleObject ''a'' 3, exampleObject ''dir/'' 0] (True, None))
         exampleClock ! 0
       = zeroContent\<lparr>content_URL := exampleURL ''play.minio.io:9000'' ''/bkt/a'',
                       content_Size := 3, content_Time := 1000, content_Type := Mode0664\<rparr>
   \<and> listInRoutine (minioClient ''/bkt/'')
         (exampleApi ([], None) [exampleObject ''a'' 3, exampleObject ''dir/'' 0] (True, None))
         exampleClock ! 1
       = zeroContent\<lparr>content_URL := exampleURL ''play.minio.io:9000'' ''/bkt/dir'',
                       content_Time := exampleClock 1, content_Type := ModeDir\<rparr>"
proof -
  let ?c = "minioClient ''/bkt/''"
  let ?objs = "[exampleObject ''a'' 3, exampleObject ''dir/'' 0]"
  let ?a = "exampleApi ([], None) ?objs (True, None)"
  have c: "\<not> rootCase ?c" "\<not> bucketOnlyCase ?c" by code_simp+
  have p: "\<forall>e \<in> set ?objs. Err e = None"
    by (simp add: exampleObject_def)
  have l: "listObjectWrapper ?c ?a (fst (url2BucketAndObject ?c)) (snd (url2BucketAndObject ?c)) False
            = ?objs"
    by (simp add: listObjectWrapper_def exampleApi_def)
  note t = listInRoutine_directory_rule[of ?c ?a ?objs exampleClock]
  from t c p l have 1: "length (listInRoutine ?c ?a exampleClock) = length ?objs" by blast
  from t c p l have "listInRoutine ?c ?a exampleClock ! 0 =
      (if strings_HasSuffix (Key (?objs ! 0)) [Separator (targetURL ?c)]
       then zeroContent\<lparr>content_URL := itemURL ?c (fst (url2BucketAndObject ?c)) (Key (?objs ! 0)),
                         content_Time := exampleClock 0,
                         content_Type := ModeDir\<rparr>
       else zeroContent\<lparr>content_URL := itemURL ?c (fst (url2BucketAndObject ?c)) (Key (?objs ! 0)),
                         content_Size := Size (?objs ! 0),
                         content_Time := LastModified (?objs ! 0),
                         content_Type := Mode0664\<rparr>)"
    by simp
  also have "\<dots> = zeroContent\<lparr>content_URL := exampleURL ''play.minio.io:9000'' ''/bkt/a'',
                       content_Size := 3, content_Time := 1000, content_Type := Mode0664\<rparr>"
    by code_simp
  finally have 2: "listInRoutine ?c ?a exampleClock ! 0
       = zeroContent\<lparr>content_URL := exampleURL ''play.minio.io:9000'' ''/bkt/a'',
                       content_Size := 3, content_Time := 1000, content_Type := Mode0664\<rparr>" .
  from t c p l have "listInRoutine ?c ?a exampleClock ! 1 =
      (if strings_HasSuffix (Key (?objs ! 1)) [Separator (targetURL ?c)]
       then zeroContent\<lparr>content_URL := itemURL ?c (fst (url2BucketAndObject ?c)) (Key (?objs ! 1)),
                         content_Time := exampleClock 1,
                         content_Type := ModeDir\<rparr>
       else zeroContent\<lparr>content_URL := itemURL ?c (fst (url2BucketAndObject ?c)) (Key (?objs ! 1)),
                         content_Size := Size (?objs ! 1),
                         content_Time := LastModified (?objs ! 1),
                         content_Type := Mode0664\<rparr>)"
    by simp
  also have "\<dots> = zeroContent\<lparr>content_URL := exampleURL ''play.minio.io:9000'' ''/bkt/dir'',
                       content_Time := exampleClock 1, content_Type := ModeDir\<rparr>"
    by code_simp
  finally have 3: "listInRoutine ?c ?a exampleClock ! 1
       = zeroContent\<lparr>content_URL := exampleURL ''play.minio.io:9000'' ''/bkt/dir'',
                       content_Time := exampleClock 1, content_Type := ModeDir\<rparr>" .
  have p': "Err (exampleObject ''a'' 3) = None" "Err (exampleObject ''dir/'' 0) = None"
    by (simp_all add: exampleObject_def)
  from c p' 1 2 3 show ?thesis by simp
qed

text \<open>
  The claim as stated fails for a key that ends in the separator and has a size other
  than zero: it does not satisfy both conditions, yet it is emitted as a Directory item
  with the wall-clock time, and its size is dropped.
\<close>

theorem listInRoutine_directory_rule_counterexample:
  "strings_HasSuffix (Key (exampleObject ''dir/'' 5)) ''/''
   \<and> Size (exampleObject ''dir/'' 5) \<noteq> 0
   \<and> map (\<lambda>item. (content_Type item, content_Size item, content_Time item))
        (listInRoutine (minioClient ''/bkt/dir/'')
           (exampleApi ([], None) [exampleObject ''dir/'' 5] (True, None)) exampleClock)
      = [(ModeDir, 0, exampleClock 0)]"
  by code_simp

lemma listRecursiveLoop_map_filter:
  "listRecursiveLoop c b objs =
     map (\<lambda>e. case Err e of
                 Some x \<Rightarrow> errContent (BackendError x)
               | None \<Rightarrow> zeroContent\<lparr>content_URL := itemURL c b (Key e),
                                      content_Size := Size e,
                                      content_Time := LastModified e,
                                      content_Type := Mode0664\<rparr>)
       (filter (\<lambda>e. Err e \<noteq> None \<or> \<not> (Size e = 0 \<and> strings_HasSuffix (Key e) ''/'')) objs)"
  by (induction objs) (auto split: option.splits)

lemma listRecursiveLoop_no_directory:
  "\<forall>item \<in> set (listRecursiveLoop c b objs). content_Type item \<noteq> ModeDir"
  by (induction objs)
     (auto simp: errContent_def zeroContent_def modes_distinct(1)[symmetric] modes_distinct(2)[symmetric]
           split: option.splits)

text \<open>
  Claim C3, amended.  In a recursive (non-incomplete) listing of a bucket or prefix (the
  default case), the entries without error that have size zero and a key ending in
  \<open>/\<close> are skipped and every other entry yields one item, an error item or an Object
  item; no Directory item is emitted.  A bucket with the keys \<open>a\<close>, \<open>dir/\<close> (size
  zero) and \<open>dir/b\<close> yields exactly the objects \<open>a\<close> and \<open>dir/b\<close>.
\<close>

theorem listRecursiveInRoutine_skips_markers:
  "\<not> rootCase c \<longrightarrow>
     listRecursiveInRoutine c a =
       map (\<lambda>e. case Err e of
                   Some x \<Rightarrow> errContent (BackendError x)
                 | None \<Rightarrow>
                     zeroContent\<lparr>content_URL := itemURL c (fst (url2BucketAndObject c)) (Key e),
                                 content_Size := Size e,
                                 content_Time := LastModified e,
                                 content_Type := Mode0664\<rparr>)
         (filter (\<lambda>e. Err e \<noteq> None \<or> \<not> (Size e = 0 \<and> strings_HasSuffix (Key e) ''/''))
            (listObjectWrapper c a (fst (url2BucketAndObject c)) (snd (url2BucketAndObject c)) True))
     \<and> (\<forall>item \<in> set (listRecursiveInRoutine c a). content_Type item \<noteq> ModeDir)"
proof
  assume r: "\<not> rootCase c"
  show "listRecursiveInRoutine c a =
       map (\<lambda>e. case Err e of
                   Some x \<Rightarrow> errContent (BackendError x)
                 | None \<Rightarrow>
                     zeroContent\<lparr>content_URL := itemURL c (fst (url2BucketAndObject c)) (Key e),
                                 content_Size := Size e,
                                 content_Time := LastModified e,
                                 content_Type := Mode0664\<rparr>)
         (filter (\<lambda>e. Err e \<noteq> None \<or> \<not> (Size e = 0 \<and> strings_HasSuffix (Key e) ''/''))
            (listObjectWrapper c a (fst (url2BucketAndObject c)) (snd (url2BucketAndObject c)) True))
     \<and> (\<forall>item \<in> set (listRecursiveInRoutine c a). content_Type item \<noteq> ModeDir)"
    unfolding listRecursiveInRoutine_default[OF r]
    by (intro conjI listRecursiveLoop_map_filter listRecursiveLoop_no_directory)
qed

theorem listRecursiveInRoutine_skips_markers_witness:
  "\<not> rootCase (minioClient ''/bkt/'')
   \<and> map (\<lambda>item. (Path (content_URL item), content_Size item, content_Type item, content_Err item))
        (listRecursiveInRoutine (minioClient ''/bkt/'')
           (exampleApi ([], None)
              [exampleObject ''a'' 3, exampleObject ''dir/'' 0, exampleObject ''dir/b'' 4]
              (True, None)))
      = [(''/bkt/a'', 3, Mode0664, None), (''/bkt/dir/b'', 4, Mode0664, None)]"
proof -
  let ?c = "minioClient ''/bkt/''"
  let ?a = "exampleApi ([], None)
              [exampleObject ''a'' 3, exampleObject ''dir/'' 0, exampleObject ''dir/b'' 4]
              (True, None)"
  have c: "\<not> rootCase ?c" by code_simp
  have "map (\<lambda>item. (Path (content_URL item), content_Size item, content_Type item, content_Err item))
          (listRecursiveInRoutine ?c ?a)
      = [(''/bkt/a'', 3, Mode0664, None), (''/bkt/dir/b'', 4, Mode0664, None)]"
    apply (subst conjunct1[OF mp[OF listRecursiveInRoutine_skips_markers[of ?c ?a] c]])
    apply code_simp
    done
  with c show ?thesis by blast
qed

text \<open>
  The claim as stated fails for the recursive listing of the root: below each bucket the
  zero-size key \<open>dir/\<close> is emitted as an entry of its own.
\<close>

theorem listRecursiveInRoutine_skips_markers_counterexample:
  "rootCase (minioClient ''/'')
   \<and> Size (exampleObject ''dir/'' 0) = 0
   \<and> strings_HasSuffix (Key (exampleObject ''dir/'' 0)) ''/''
   \<and> map (\<lambda>item. (Path (content_URL item), content_Size item, content_Type item, content_Err item))
        (listRecursiveInRoutine (minioClient ''/'')
           (exampleApi ([exampleBucket ''bkt''], None) [exampleObject ''dir/'' 0] (True, None)))
      = [(''/bkt'', 0, ModeDir, None), (''/bkt/dir'', 0, Mode0664, None)]"
  by code_simp

text \<open>
  In the recursive listing of the root (all buckets), an entry that reports the storage
  class \<open>GLACIER\<close> yields exactly one item, which carries the error \<open>ObjectOnGlacier\<close>
  for its key and nothing else, and the enumeration continues with the following
  entries and buckets.
\<close>

lemma listRecursiveInRoutine_root_glacier:
  "rootCase c \<and> ListBuckets a = (bs1 @ bucket # bs2, None)
   \<and> listObjectWrapper c a (Name bucket) [] True = pre @ e # post
   \<and> StorageClass e = s3StorageClassGlacier
   \<longrightarrow> listRecursiveInRoutine c a =
         listRecursiveBuckets c a [] bs1
         @ zeroContent\<lparr>content_URL :=
                         withPath (targetURL c) (filepath_Join [Path (targetURL c), Name bucket]),
                       content_Type := ModeDir,
                       content_Time := CreationDate bucket\<rparr>
         # listRecursiveBucketLoop c (Name bucket) pre
         @ errContent (ObjectOnGlacier (Key e))
         # listRecursiveBucketLoop c (Name bucket) post
         @ listRecursiveBuckets c a [] bs2
       \<and> errContent (ObjectOnGlacier (Key e))
           = \<lparr>content_URL = zeroURL, content_Time = 0, content_Size = 0, content_Type = 0,
              content_Err = Some (ObjectOnGlacier (Key e))\<rparr>"
  by (simp add: listRecursiveInRoutine_root listRecursiveBuckets_append
        listRecursiveBucketLoop_append errContent_def zeroContent_def)

lemma listRecursiveInRoutine_root_glacier_example:
  "map (\<lambda>item. (Path (content_URL item), content_Size item, content_Err item))
        (listRecursiveInRoutine (minioClient ''/'')
           (exampleApi ([exampleBucket ''bkt''], None)
              [glacierObject ''g'' 5, exampleObject ''a'' 3] (True, None)))
      = [(''/bkt'', 0, None), ([], 0, Some (ObjectOnGlacier ''g'')), (''/bkt/a'', 3, None)]"
  by code_simp

text \<open>
  Claim C5.  An object that reports the storage class \<open>GLACIER\<close> during a recursive
  listing should yield one item that carries only the error \<open>ObjectOnGlacier\<close>.  The
  default case of \<open>listRecursiveInRoutine\<close> (the recursive listing of a bucket or
  prefix) does not look at the storage class, unlike the root case: the object \<open>g\<close> of
  bucket \<open>bkt\<close> is emitted as an Object item with its size and time and without error.
\<close>

theorem listRecursiveInRoutine_default_glacier:
  "\<not> rootCase (minioClient ''/bkt/'')
   \<and> StorageClass (glacierObject ''g'' 5) = s3StorageClassGlacier
   \<and> map (\<lambda>item. (Path (content_URL item), content_Size item, content_Time item,
                    content_Type item, content_Err item))
        (listRecursiveInRoutine (minioClient ''/bkt/'')
           (exampleApi ([], None) [glacierObject ''g'' 5] (True, None)))
      = [(''/bkt/g'', 5, 1000, Mode0664, None)]"
  by code_simp

end
